theory Spec2Isabelle
  imports Main "HOL-Library.Sublist" "HOL-Library.Char_ord" "HOL-Library.List_Lexorder"
    "HOL-Library.Multiset"
begin

section \<open>JavaScript strings\<close>

text \<open>
  A string is a sequence of UTF-16 code units, each an integer from 0 to 65535. A string
  literal of the program is written \<open>js ''...''\<close>: the code units of its ASCII
  characters. \<open>substring\<close>, \<open>split\<close>, \<open>includes\<close> and \<open>trim\<close> work on code units.
  \<open>toLowerCase\<close> and \<open>toUpperCase\<close> follow the Unicode case mappings of the runtime;
  they are taken from the surroundings of a call (see \<open>env\<close> below).
\<close>

type_synonym js_string = "int list"

definition js :: "string \<Rightarrow> js_string" where
  "js s = map of_char s"

text \<open>\<open>s.includes(p)\<close>: \<open>p\<close> occurs in \<open>s\<close> as a contiguous run of code units.\<close>

fun includes_str :: "js_string \<Rightarrow> js_string \<Rightarrow> bool" where
  "includes_str [] p = (p = [])"
| "includes_str (c # cs) p = (prefix p (c # cs) \<or> includes_str cs p)"

text \<open>\<open>s.substring(0, n)\<close> for \<open>n\<close> not negative.\<close>

definition substring0 :: "nat \<Rightarrow> js_string \<Rightarrow> js_string" where
  "substring0 n s = take n s"

text \<open>
  \<open>s.trim()\<close> strips white space and line terminators at both ends: TAB, LF, VT, FF,
  CR, the space, the no-break space, the other space separators of Unicode, the line
  and paragraph separators and the byte order mark.
\<close>

definition isSpace :: "int \<Rightarrow> bool" where
  "isSpace c =
     (c \<in> {0x9, 0xA, 0xB, 0xC, 0xD, 0x20, 0xA0, 0x1680, 0x2028, 0x2029, 0x202F, 0x205F,
           0x3000, 0xFEFF} \<or>
      (0x2000 \<le> c \<and> c \<le> 0x200A))"

definition trim :: "js_string \<Rightarrow> js_string" where
  "trim s = rev (dropWhile isSpace (rev (dropWhile isSpace s)))"

text \<open>\<open>s.split(/[.!?]/)[0]\<close>: the text before the first full stop, exclamation or question mark.\<close>

definition firstSentence :: "js_string \<Rightarrow> js_string" where
  "firstSentence s = takeWhile (\<lambda>c. c \<notin> {0x2E, 0x21, 0x3F}) s"

text \<open>Decimal rendering of a number, as a template literal prints it.\<close>

fun decimal :: "nat \<Rightarrow> js_string" where
  "decimal n =
     (if n < 10 then [0x30 + int n] else decimal (n div 10) @ [0x30 + int (n mod 10)])"

declare decimal.simps [simp del]

section \<open>JavaScript dates\<close>

text \<open>
  A \<open>Date\<close> holds a time value: milliseconds since 1970-01-01T00:00:00Z. The string that
  \<open>toISOString\<close> prints and \<open>new Date(s)\<close> reads back denotes the same time value, so
  the model keeps the time value where the program keeps the string. The calendar
  functions are the ones of the language definition; the time zone of the runtime is a
  parameter \<open>LocalTZA t isUTC\<close>, the offset of local time in milliseconds. Time values
  are unbounded here (no \<open>TimeClip\<close>).
\<close>

definition msPerDay :: int where
  "msPerDay = 86400000"

definition Day :: "int \<Rightarrow> int" where
  "Day t = t div msPerDay"

definition TimeWithinDay :: "int \<Rightarrow> int" where
  "TimeWithinDay t = t mod msPerDay"

definition MakeDate :: "int \<Rightarrow> int \<Rightarrow> int" where
  "MakeDate day time = day * msPerDay + time"

definition WeekDay :: "int \<Rightarrow> int" where
  "WeekDay t = (Day t + 4) mod 7"

definition DayFromYear :: "int \<Rightarrow> int" where
  "DayFromYear y =
     365 * (y - 1970) + (y - 1969) div 4 - (y - 1901) div 100 + (y - 1601) div 400"

definition InLeapYear :: "int \<Rightarrow> bool" where
  "InLeapYear y = (DayFromYear (y + 1) - DayFromYear y = 366)"

text \<open>
  The year of a day number: the largest \<open>y\<close> with \<open>DayFromYear y \<le> d\<close>, looked for
  next to the estimate that the mean length of a year gives.
\<close>

definition YearFromDay :: "int \<Rightarrow> int" where
  "YearFromDay d =
     (let y0 = 1970 + (d * 400) div 146097
      in if DayFromYear (y0 + 1) \<le> d then y0 + 1
         else if DayFromYear y0 \<le> d then y0
         else y0 - 1)"

text \<open>Days of the year before month \<open>m\<close> (0 is January).\<close>

definition monthStart :: "bool \<Rightarrow> int \<Rightarrow> int" where
  "monthStart leap m =
     (let l = (if leap then 1 else 0)
      in if m = 0 then 0 else if m = 1 then 31 else if m = 2 then 59 + l
         else if m = 3 then 90 + l else if m = 4 then 120 + l else if m = 5 then 151 + l
         else if m = 6 then 181 + l else if m = 7 then 212 + l else if m = 8 then 243 + l
         else if m = 9 then 273 + l else if m = 10 then 304 + l else 334 + l)"

definition MonthFromDay :: "int \<Rightarrow> int" where
  "MonthFromDay d =
     (let y = YearFromDay d; leap = InLeapYear y; n = d - DayFromYear y
      in if n < monthStart leap 1 then 0 else if n < monthStart leap 2 then 1
         else if n < monthStart leap 3 then 2 else if n < monthStart leap 4 then 3
         else if n < monthStart leap 5 then 4 else if n < monthStart leap 6 then 5
         else if n < monthStart leap 7 then 6 else if n < monthStart leap 8 then 7
         else if n < monthStart leap 9 then 8 else if n < monthStart leap 10 then 9
         else if n < monthStart leap 11 then 10 else 11)"

definition MakeDay :: "int \<Rightarrow> int \<Rightarrow> int \<Rightarrow> int" where
  "MakeDay year month date =
     (let ym = year + month div 12; mn = month mod 12
      in DayFromYear ym + monthStart (InLeapYear ym) mn + date - 1)"

definition DateFromDay :: "int \<Rightarrow> int" where
  "DateFromDay d = d - MakeDay (YearFromDay d) (MonthFromDay d) 1 + 1"

type_synonym timezone = "int \<Rightarrow> bool \<Rightarrow> int"

definition LocalTime :: "timezone \<Rightarrow> int \<Rightarrow> int" where
  "LocalTime tz t = t + tz t True"

definition UTC :: "timezone \<Rightarrow> int \<Rightarrow> int" where
  "UTC tz t = t - tz t False"

text \<open>The methods of \<open>Date\<close> that the program calls, on time values.\<close>

definition getDate :: "timezone \<Rightarrow> int \<Rightarrow> int" where
  "getDate tz t = DateFromDay (Day (LocalTime tz t))"

definition getDay :: "timezone \<Rightarrow> int \<Rightarrow> int" where
  "getDay tz t = WeekDay (LocalTime tz t)"

definition getMonth :: "timezone \<Rightarrow> int \<Rightarrow> int" where
  "getMonth tz t = MonthFromDay (Day (LocalTime tz t))"

definition setDate :: "timezone \<Rightarrow> int \<Rightarrow> int \<Rightarrow> int" where
  "setDate tz date t =
     (let l = LocalTime tz t; d = Day l
      in UTC tz (MakeDate (MakeDay (YearFromDay d) (MonthFromDay d) date) (TimeWithinDay l)))"

definition setMonth :: "timezone \<Rightarrow> int \<Rightarrow> int \<Rightarrow> int" where
  "setMonth tz month t =
     (let l = LocalTime tz t; d = Day l
      in UTC tz (MakeDate (MakeDay (YearFromDay d) month (DateFromDay d)) (TimeWithinDay l)))"

text \<open>A zone with a fixed offset, and one with a change of offset (daylight saving).\<close>

definition fixedZone :: "int \<Rightarrow> timezone" where
  "fixedZone off = (\<lambda>t isUTC. off)"

definition utc :: timezone where
  "utc = fixedZone 0"

definition dstZone :: timezone where
  \<comment> \<open>five hours behind UTC until 2025-03-09T07:00:00Z (02:00 local time), four hours after\<close>
  "dstZone = (\<lambda>t isUTC.
     if isUTC then (if t < 1741503600000 then - 18000000 else - 14400000)
     else (if t < 1741489200000 then - 18000000 else - 14400000))"

section \<open>Data model (frontend/libs/api.ts)\<close>

record task =
  task_id :: nat
  title :: js_string
  description :: js_string
  label :: js_string
  due_date :: "int option"
  created_at :: int
  updated_at :: int

text \<open>What a call reads from its surroundings besides the module's variables.\<close>

record env =
  now :: int  \<comment> \<open>the clock, \<open>new Date()\<close>\<close>
  zone :: timezone  \<comment> \<open>the time zone of the runtime\<close>
  onLine :: bool  \<comment> \<open>\<open>navigator.onLine\<close>\<close>
  parseDate :: "js_string \<Rightarrow> int option"  \<comment> \<open>\<open>new Date(s)\<close>; \<open>None\<close> is an invalid date\<close>
  lowerCase :: "js_string \<Rightarrow> js_string"  \<comment> \<open>\<open>s.toLowerCase()\<close>\<close>
  upperCase :: "js_string \<Rightarrow> js_string"  \<comment> \<open>\<open>s.toUpperCase()\<close>\<close>

section \<open>Field extraction: \<open>processTaskDescription\<close>\<close>

record processed =
  p_title :: js_string
  p_label :: js_string
  p_due_date :: "int option"

definition extractTitle :: "js_string \<Rightarrow> js_string" where
  "extractTitle desc =
     (let t = trim (substring0 50 (firstSentence desc))
      in if t = [] then trim (substring0 50 desc) else t)"

definition extractLabel :: "js_string \<Rightarrow> js_string" where
  "extractLabel lowerDesc =
     (if includes_str lowerDesc (js ''work'') \<or>
         includes_str lowerDesc (js ''meeting'') \<or>
         includes_str lowerDesc (js ''report'') \<or>
         includes_str lowerDesc (js ''project'') \<or>
         includes_str lowerDesc (js ''client'') \<or>
         includes_str lowerDesc (js ''presentation'')
      then js ''work''
      else if includes_str lowerDesc (js ''buy'') \<or>
         includes_str lowerDesc (js ''shop'') \<or>
         includes_str lowerDesc (js ''grocery'') \<or>
         includes_str lowerDesc (js ''purchase'') \<or>
         includes_str lowerDesc (js ''store'')
      then js ''shopping''
      else if includes_str lowerDesc (js ''doctor'') \<or>
         includes_str lowerDesc (js ''dentist'') \<or>
         includes_str lowerDesc (js ''health'') \<or>
         includes_str lowerDesc (js ''appointment'') \<or>
         includes_str lowerDesc (js ''medical'') \<or>
         includes_str lowerDesc (js ''hospital'')
      then js ''health''
      else if includes_str lowerDesc (js ''urgent'') \<or>
         includes_str lowerDesc (js ''asap'') \<or>
         includes_str lowerDesc (js ''immediately'') \<or>
         includes_str lowerDesc (js ''critical'') \<or>
         includes_str lowerDesc (js ''emergency'')
      then js ''urgent''
      else js ''personal'')"

text \<open>\<open>(target - d.getDay() + 7) % 7 || 7\<close>\<close>

definition daysUntil :: "int \<Rightarrow> int \<Rightarrow> int" where
  "daysUntil target weekday =
     (let k = (target - weekday + 7) mod 7 in if k = 0 then 7 else k)"

definition extractDueDate :: "env \<Rightarrow> js_string \<Rightarrow> int option" where
  "extractDueDate e lowerDesc =
     (let tz = zone e; n = now e
      in if includes_str lowerDesc (js ''tomorrow'') then
           Some (setDate tz (getDate tz n + 1) n)
         else if includes_str lowerDesc (js ''next week'') then
           Some (setDate tz (getDate tz n + 7) n)
         else if includes_str lowerDesc (js ''friday'') then
           (let daysUntilFriday = daysUntil 5 (getDay tz n)
            in Some (setDate tz (getDate tz n + daysUntilFriday) n))
         else if includes_str lowerDesc (js ''next month'') then
           Some (setMonth tz (getMonth tz n + 1) n)
         else if includes_str lowerDesc (js ''monday'') then
           (let daysUntilMonday = daysUntil 1 (getDay tz n)
            in Some (setDate tz (getDate tz n + daysUntilMonday) n))
         else None)"

definition processTaskDescription :: "env \<Rightarrow> js_string \<Rightarrow> processed" where
  "processTaskDescription e desc =
     (let lowerDesc = lowerCase e desc
      in \<lparr>p_title = extractTitle desc,
          p_label = extractLabel lowerDesc,
          p_due_date = extractDueDate e lowerDesc\<rparr>)"

text \<open>
  The category rule in the words of the specification: four buckets of keywords in a
  fixed order, the first bucket with a keyword that occurs in the description wins.
\<close>

definition workBucket :: "js_string \<times> js_string list" where
  "workBucket =
     (js ''work'', map js [''work'', ''meeting'', ''report'', ''project'', ''client'', ''presentation''])"

definition shoppingBucket :: "js_string \<times> js_string list" where
  "shoppingBucket = (js ''shopping'', map js [''buy'', ''shop'', ''grocery'', ''purchase'', ''store''])"

definition healthBucket :: "js_string \<times> js_string list" where
  "healthBucket =
     (js ''health'', map js [''doctor'', ''dentist'', ''health'', ''appointment'', ''medical'', ''hospital''])"

definition urgentBucket :: "js_string \<times> js_string list" where
  "urgentBucket = (js ''urgent'', map js [''urgent'', ''asap'', ''immediately'', ''critical'', ''emergency''])"

definition buckets :: "(js_string \<times> js_string list) list" where
  "buckets = [workBucket, shoppingBucket, healthBucket, urgentBucket]"

definition bucketMatches :: "env \<Rightarrow> js_string \<Rightarrow> js_string \<times> js_string list \<Rightarrow> bool" where
  "bucketMatches e d b = list_ex (includes_str (lowerCase e d)) (snd b)"

definition spec_category :: "env \<Rightarrow> js_string \<Rightarrow> js_string" where
  "spec_category e d =
     (case find (bucketMatches e d) buckets of None \<Rightarrow> js ''personal'' | Some b \<Rightarrow> fst b)"

section \<open>Errors and remote calls\<close>

text \<open>
  A thrown value is an error object with a name, a message and, possibly, a \<open>status\<close>
  property. \<open>fetch\<close> rejects with a \<open>TypeError\<close> when the network fails and with an
  \<open>AbortError\<close> when the deadline aborts it; the program itself throws \<open>new Error(msg)\<close>.
\<close>

record js_error =
  err_name :: js_string
  err_message :: js_string
  err_status :: "nat option"

definition Error :: "js_string \<Rightarrow> js_error" where
  "Error msg = \<lparr>err_name = js ''Error'', err_message = msg, err_status = None\<rparr>"

definition errToString :: "js_error \<Rightarrow> js_string" where
  "errToString x =
     (if err_name x = [] then err_message x
      else if err_message x = [] then err_name x
      else err_name x @ (js '': '') @ err_message x)"

text \<open>
  What the server answers: the status line and what \<open>await response.text()\<close> and
  \<open>await response.json()\<close> give (either may throw).
\<close>

record 'a response =
  status :: nat
  statusText :: js_string
  body_text :: "js_error + js_string"
  body_json :: "js_error + 'a"

definition response_ok :: "'a response \<Rightarrow> bool" where
  "response_ok resp = (200 \<le> status resp \<and> status resp \<le> 299)"

text \<open>
  The outcome of one \<open>fetch\<close> under its deadline. It is an input of each operation: what
  the remote side would do if it is called.
\<close>

datatype 'a fetched = Rejected js_error | Resolved "'a response"

text \<open>
  The \<open>try\<close> blocks. \<open>Inl\<close> is the value thrown into the \<open>catch\<close> block, \<open>Inr\<close> the
  value the block returns. \<open>getTasks\<close>, \<open>getTask\<close> and \<open>getLabels\<close> put the status
  text in the message; \<open>createTask\<close>, \<open>updateTask\<close> and \<open>generateSummary\<close> put the
  body there; \<open>deleteTask\<close> reads no body.
\<close>

definition httpError :: "nat \<Rightarrow> js_string \<Rightarrow> js_error" where
  "httpError st txt = Error ((js ''HTTP '') @ decimal st @ (js '': '') @ txt)"

definition remoteJson :: "'a fetched \<Rightarrow> js_error + 'a" where
  "remoteJson r =
     (case r of
        Rejected error \<Rightarrow> Inl error
      | Resolved resp \<Rightarrow>
          if \<not> response_ok resp then Inl (httpError (status resp) (statusText resp))
          else body_json resp)"

definition remoteJsonText :: "'a fetched \<Rightarrow> js_error + 'a" where
  "remoteJsonText r =
     (case r of
        Rejected error \<Rightarrow> Inl error
      | Resolved resp \<Rightarrow>
          if \<not> response_ok resp then
            (case body_text resp of
               Inl error \<Rightarrow> Inl error
             | Inr errorText \<Rightarrow> Inl (httpError (status resp) errorText))
          else body_json resp)"

definition remoteVoid :: "'a fetched \<Rightarrow> js_error + unit" where
  "remoteVoid r =
     (case r of
        Rejected error \<Rightarrow> Inl error
      | Resolved resp \<Rightarrow>
          if \<not> response_ok resp then Inl (httpError (status resp) (statusText resp))
          else Inr ())"

section \<open>Module state\<close>

text \<open>The remote calls a run has attempted, in order (the effect of \<open>fetch\<close>).\<close>

datatype request =
    ListRequest "js_string option" nat nat
  | GetRequest nat
  | CreateRequest js_string
  | UpdateRequest nat js_string
  | DeleteRequest nat
  | LabelsRequest
  | SummaryRequest js_string js_string
  | HealthRequest

record world =
  mockTasks :: "task list"
  nextId :: nat
  isUsingMockData :: bool
  isDemoMode :: bool
  demoModeReason :: js_string
  fetchLog :: "request list"

text \<open>The module as loaded at time \<open>t0\<close>.\<close>

definition sampleTask :: "int \<Rightarrow> task" where
  "sampleTask t0 =
     \<lparr>task_id = 1,
      title = js ''Sample Task'',
      description = js ''This is a sample task shown when API is unavailable'',
      label = js ''personal'',
      due_date = None,
      created_at = t0,
      updated_at = t0\<rparr>"

definition initial :: "int \<Rightarrow> world" where
  "initial t0 =
     \<lparr>mockTasks = [sampleTask t0],
      nextId = 2,
      isUsingMockData = False,
      isDemoMode = False,
      demoModeReason = [],
      fetchLog = []\<rparr>"

definition fetch :: "request \<Rightarrow> world \<Rightarrow> world" where
  "fetch req w = w\<lparr>fetchLog := fetchLog w @ [req]\<rparr>"

definition setDemoMode :: "bool \<Rightarrow> js_string \<Rightarrow> world \<Rightarrow> world" where
  "setDemoMode enabled reason w =
     w\<lparr>isDemoMode := enabled, demoModeReason := reason, isUsingMockData := enabled\<rparr>"

section \<open>Error classification: \<open>handleApiError\<close>\<close>

text \<open>\<open>error?.message || error?.toString() || ""\<close>, with \<open>None\<close> for null and undefined.\<close>

definition errorMessageOf :: "js_error option \<Rightarrow> js_string" where
  "errorMessageOf error =
     (case error of
        None \<Rightarrow> []
      | Some x \<Rightarrow> if err_message x \<noteq> [] then err_message x else errToString x)"

definition errorNameOf :: "js_error option \<Rightarrow> js_string" where
  "errorNameOf error = (case error of None \<Rightarrow> [] | Some x \<Rightarrow> err_name x)"

definition errorStatusOf :: "js_error option \<Rightarrow> nat option" where
  "errorStatusOf error = (case error of None \<Rightarrow> None | Some x \<Rightarrow> err_status x)"

definition handleApiError ::
  "env \<Rightarrow> js_error option \<Rightarrow> js_string \<Rightarrow> nat option \<Rightarrow> world \<Rightarrow> bool \<times> world" where
  "handleApiError e error operation statusCode w =
     (let errorMessage = errorMessageOf error;
          errorName = errorNameOf error
      in if statusCode = Some 422 \<or> includes_str errorMessage (js ''422'') \<or>
            errorStatusOf error = Some 422
         then (True, setDemoMode True (js ''AI processing temporarily unavailable (422 error)'') w)
         else if includes_str errorMessage (js ''Failed to fetch'') \<or>
            includes_str errorMessage (js ''NetworkError'') \<or>
            includes_str errorMessage (js ''TypeError: fetch'') \<or>
            includes_str errorMessage (js ''CORS'') \<or>
            errorName = js ''AbortError'' \<or>
            errorName = js ''TypeError'' \<or>
            includes_str errorMessage (js ''ERR_NETWORK'') \<or>
            includes_str errorMessage (js ''ERR_INTERNET_DISCONNECTED'') \<or>
            includes_str errorMessage (js ''net::'') \<or>
            \<not> onLine e
         then (True, setDemoMode True (js ''Backend server connection failed'') w)
         else if includes_str errorMessage (js ''HTTP'') \<and>
            (includes_str errorMessage (js ''500'') \<or> includes_str errorMessage (js ''503''))
         then (True, setDemoMode True (js ''Backend server error'') w)
         else (True, setDemoMode True (js ''API temporarily unavailable'') w))"

section \<open>The local task store: the fallback branches of \<open>api\<close>\<close>

text \<open>
  Each definition is the code that an operation of \<open>api\<close> runs on \<open>mockTasks\<close> and
  \<open>nextId\<close> when it does not use the remote answer. One clock reading \<open>now e\<close> stands
  for the readings of one call. The artificial delays are not modelled.
\<close>

record task_page =
  tasks :: "task list"
  total :: nat
  skip :: nat
  limit :: nat

text \<open>\<open>label && label !== "all"\<close>, for an optional string.\<close>

definition labelGiven :: "js_string option \<Rightarrow> js_string option" where
  "labelGiven l =
     (case l of None \<Rightarrow> None | Some s \<Rightarrow> if s \<noteq> [] \<and> s \<noteq> (js ''all'') then Some s else None)"

text \<open>
  \<open>filteredTasks.sort((a, b) => time(b.created_at) - time(a.created_at))\<close>: the sort is
  stable and works on a copy, \<open>mockTasks\<close> keeps its order.
\<close>

definition localList :: "js_string option \<Rightarrow> world \<Rightarrow> task_page" where
  "localList l w =
     (let filteredTasks =
            (case labelGiven l of
               Some s \<Rightarrow> filter (\<lambda>t. label t = s) (mockTasks w)
             | None \<Rightarrow> mockTasks w)
      in \<lparr>tasks = sort_key (\<lambda>t. - created_at t) filteredTasks,
          total = length filteredTasks,
          skip = 0,
          limit = 50\<rparr>)"

definition taskNotFound :: js_error where
  "taskNotFound = Error (js ''Task not found'')"

definition localGet :: "nat \<Rightarrow> world \<Rightarrow> js_error + task" where
  "localGet i w =
     (case find (\<lambda>t. task_id t = i) (mockTasks w) of
        None \<Rightarrow> Inl taskNotFound
      | Some t \<Rightarrow> Inr t)"

text \<open>\<open>a || b\<close> on strings: the empty string is falsy.\<close>

definition orElse :: "js_string \<Rightarrow> js_string \<Rightarrow> js_string" where
  "orElse a b = (if a \<noteq> [] then a else b)"

definition localCreate :: "env \<Rightarrow> js_string \<Rightarrow> world \<Rightarrow> task \<times> world" where
  "localCreate e desc w =
     (let processed = processTaskDescription e desc;
          newTask =
            \<lparr>task_id = nextId w,
             title = orElse (p_title processed) (substring0 50 desc),
             description = desc,
             label = orElse (p_label processed) (js ''personal''),
             due_date = p_due_date processed,
             created_at = now e,
             updated_at = now e\<rparr>
      in (newTask, w\<lparr>nextId := nextId w + 1, mockTasks := mockTasks w @ [newTask]\<rparr>))"

text \<open>\<open>xs.findIndex(p)\<close>, with \<open>None\<close> for -1.\<close>

fun findIndex :: "('a \<Rightarrow> bool) \<Rightarrow> 'a list \<Rightarrow> nat option" where
  "findIndex p [] = None"
| "findIndex p (x # xs) = (if p x then Some 0 else map_option Suc (findIndex p xs))"

definition localUpdate :: "env \<Rightarrow> nat \<Rightarrow> js_string \<Rightarrow> world \<Rightarrow> (js_error + task) \<times> world" where
  "localUpdate e i desc w =
     (case findIndex (\<lambda>t. task_id t = i) (mockTasks w) of
        None \<Rightarrow> (Inl taskNotFound, w)
      | Some taskIndex \<Rightarrow>
          (let old = mockTasks w ! taskIndex;
               processed = processTaskDescription e desc;
               updatedTask =
                 old\<lparr>title := orElse (p_title processed) (substring0 50 desc),
                     description := desc,
                     label := orElse (p_label processed) (label old),
                     due_date := p_due_date processed,
                     updated_at := now e\<rparr>
           in (Inr updatedTask, w\<lparr>mockTasks := (mockTasks w)[taskIndex := updatedTask]\<rparr>)))"

text \<open>\<open>mockTasks.splice(taskIndex, 1)\<close> when the id is found, nothing otherwise.\<close>

definition localDelete :: "nat \<Rightarrow> world \<Rightarrow> world" where
  "localDelete i w =
     (case findIndex (\<lambda>t. task_id t = i) (mockTasks w) of
        None \<Rightarrow> w
      | Some taskIndex \<Rightarrow>
          w\<lparr>mockTasks := take taskIndex (mockTasks w) @ drop (Suc taskIndex) (mockTasks w)\<rparr>)"

text \<open>\<open>Array.from(new Set(xs))\<close>: the first occurrence of each element, in order.\<close>

definition fromSet :: "'a list \<Rightarrow> 'a list" where
  "fromSet xs = rev (remdups (rev xs))"

definition localLabels :: "world \<Rightarrow> js_string list" where
  "localLabels w = sort (fromSet (map label (mockTasks w)))"

record summary_request =
  start_date :: js_string
  end_date :: js_string

record summary_response =
  summary :: js_string
  response_start_date :: js_string
  response_end_date :: js_string
  task_count :: nat

text \<open>\<open>acc[label] = (acc[label] || 0) + 1\<close>; the keys keep the order of their first use.\<close>

definition bumpCount :: "(js_string \<times> nat) list \<Rightarrow> js_string \<Rightarrow> (js_string \<times> nat) list" where
  "bumpCount acc l =
     (case map_of acc l of
        None \<Rightarrow> acc @ [(l, 1)]
      | Some c \<Rightarrow> map (\<lambda>(k, v). if k = l then (k, v + 1) else (k, v)) acc)"

definition joinWith :: "js_string \<Rightarrow> js_string list \<Rightarrow> js_string" where
  "joinWith sep xs = (case xs of [] \<Rightarrow> [] | y # ys \<Rightarrow> y @ concat (map (\<lambda>z. sep @ z) ys))"

definition newline :: js_string where
  "newline = [0xA]"

definition bullet :: js_string where
  \<comment> \<open>U+2022\<close>
  "bullet = [0x2022]"

definition warningSign :: js_string where
  \<comment> \<open>U+26A0 U+FE0F\<close>
  "warningSign = [0x26A0, 0xFE0F]"

definition summaryText :: "env \<Rightarrow> nat \<Rightarrow> (js_string \<times> nat) list \<Rightarrow> js_string" where
  "summaryText e n labelCounts =
     joinWith newline
      [js ''DEMO MODE ANALYSIS - AI TEMPORARILY UNAVAILABLE'',
       [],
       js ''Task Analysis for Selected Period:'',
       bullet @ (js '' Total Tasks: '') @ decimal n,
       bullet @ (js '' Categories: '') @ decimal (length labelCounts),
       [],
       js ''Distribution:'',
       joinWith newline
         (map (\<lambda>(l, count).
                 bullet @ (js '' '') @ upperCase e l @ (js '': '') @ decimal count @ (js '' task'') @
                 (if count > 1 then js ''s'' else []))
              labelCounts),
       [],
       warningSign @ (js '' NOTE: This is a simplified analysis generated in demo mode. ''),
       js ''Full AI-powered insights will be available when the backend service is restored.'',
       [],
       js ''Basic Recommendations:'',
       bullet @ (js '' Review high-priority tasks first''),
       bullet @ (js '' Group similar tasks for efficiency''),
       bullet @ (js '' Set realistic deadlines for pending items''),
       bullet @ (js '' Regular task review helps maintain productivity''),
       [],
       js ''Demo mode provides basic task management functionality while AI services are temporarily unavailable.'']"

text \<open>A comparison with an invalid date is false.\<close>

definition inRange :: "env \<Rightarrow> summary_request \<Rightarrow> task \<Rightarrow> bool" where
  "inRange e request t =
     (case (parseDate e (start_date request), parseDate e (end_date request)) of
        (Some startDate, Some endDate) \<Rightarrow> startDate \<le> created_at t \<and> created_at t \<le> endDate
      | _ \<Rightarrow> False)"

definition localSummary :: "env \<Rightarrow> summary_request \<Rightarrow> world \<Rightarrow> summary_response" where
  "localSummary e request w =
     (let tasksInRange = filter (inRange e request) (mockTasks w);
          labelCounts = foldl bumpCount [] (map label tasksInRange)
      in \<lparr>summary = summaryText e (length tasksInRange) labelCounts,
          response_start_date = start_date request,
          response_end_date = end_date request,
          task_count = length tasksInRange\<rparr>)"

section \<open>The gateway: the operations of \<open>api\<close>\<close>

text \<open>
  An operation takes the outcome \<open>r\<close> that its remote call has if it is made and the
  module state, and returns what the caller gets (\<open>Inl\<close> is a rejected promise) with
  the new state. The state is touched only after the \<open>fetch\<close> has ended, except in
  \<open>getTasks\<close>, which reads the flag before it calls and again after the answer.
  \<open>getTasksResume\<close> is the part of \<open>getTasks\<close> after the \<open>fetch\<close>: it runs in the state
  that it finds then, which other calls may have changed while the request was pending.
\<close>

definition getTasksResume ::
  "env \<Rightarrow> js_string option \<Rightarrow> task_page fetched \<Rightarrow> world \<Rightarrow>
   (js_error + task_page) \<times> world" where
  "getTasksResume e l r w =
     (case remoteJson r of
        Inr data \<Rightarrow> (Inr data, if isDemoMode w then setDemoMode False [] w else w)
      | Inl error \<Rightarrow>
          (let w2 = snd (handleApiError e (Some error) (js ''getTasks'') None w)
           in (Inr (localList l w2), w2)))"

text \<open>A call of \<open>getTasks\<close> that no other call overlaps.\<close>

definition getTasks ::
  "env \<Rightarrow> js_string option \<Rightarrow> nat \<Rightarrow> nat \<Rightarrow> task_page fetched \<Rightarrow> world \<Rightarrow>
   (js_error + task_page) \<times> world" where
  "getTasks e l sk lim r w =
     (if isDemoMode w then (Inr (localList l w), w)
      else getTasksResume e l r (fetch (ListRequest (labelGiven l) sk lim) w))"

definition getTask ::
  "env \<Rightarrow> nat \<Rightarrow> task fetched \<Rightarrow> world \<Rightarrow> (js_error + task) \<times> world" where
  "getTask e i r w =
     (let w1 = fetch (GetRequest i) w
      in case remoteJson r of
           Inr t \<Rightarrow> (Inr t, w1)
         | Inl error \<Rightarrow>
             (let w2 = snd (handleApiError e (Some error) (js ''getTask'') None w1)
              in (localGet i w2, w2)))"

definition createTask ::
  "env \<Rightarrow> js_string \<Rightarrow> task fetched \<Rightarrow> world \<Rightarrow> (js_error + task) \<times> world" where
  "createTask e desc r w =
     (let w1 = fetch (CreateRequest desc) w
      in case remoteJsonText r of
           Inr newTask \<Rightarrow> (Inr newTask, w1)
         | Inl error \<Rightarrow>
             (let (shouldUseMock, w2) = handleApiError e (Some error) (js ''createTask'') None w1
              in if shouldUseMock then
                   (let (newTask, w3) = localCreate e desc w2 in (Inr newTask, w3))
                 else (Inl error, w2)))"

definition updateTask ::
  "env \<Rightarrow> nat \<Rightarrow> js_string \<Rightarrow> task fetched \<Rightarrow> world \<Rightarrow> (js_error + task) \<times> world" where
  "updateTask e i desc r w =
     (let w1 = fetch (UpdateRequest i desc) w
      in case remoteJsonText r of
           Inr t \<Rightarrow> (Inr t, w1)
         | Inl error \<Rightarrow>
             (let (shouldUseMock, w2) = handleApiError e (Some error) (js ''updateTask'') None w1
              in if shouldUseMock then localUpdate e i desc w2
                 else (Inl error, w2)))"

definition deleteTask ::
  "env \<Rightarrow> nat \<Rightarrow> unit fetched \<Rightarrow> world \<Rightarrow> (js_error + unit) \<times> world" where
  "deleteTask e i r w =
     (let w1 = fetch (DeleteRequest i) w
      in case remoteVoid r of
           Inr u \<Rightarrow> (Inr (), w1)
         | Inl error \<Rightarrow>
             (let w2 = snd (handleApiError e (Some error) (js ''deleteTask'') None w1)
              in (Inr (), localDelete i w2)))"

definition getLabels ::
  "env \<Rightarrow> js_string list fetched \<Rightarrow> world \<Rightarrow> (js_error + js_string list) \<times> world" where
  "getLabels e r w =
     (let w1 = fetch LabelsRequest w
      in case remoteJson r of
           Inr ls \<Rightarrow> (Inr ls, w1)
         | Inl error \<Rightarrow>
             (let w2 = snd (handleApiError e (Some error) (js ''getLabels'') None w1)
              in (Inr (localLabels w2), w2)))"

definition generateSummary ::
  "env \<Rightarrow> summary_request \<Rightarrow> summary_response fetched \<Rightarrow> world \<Rightarrow>
   (js_error + summary_response) \<times> world" where
  "generateSummary e request r w =
     (let w1 = fetch (SummaryRequest (start_date request) (end_date request)) w
      in case remoteJsonText r of
           Inr s \<Rightarrow> (Inr s, w1)
         | Inl error \<Rightarrow>
             (let w2 = snd (handleApiError e (Some error) (js ''generateSummary'') None w1)
              in (Inr (localSummary e request w2), w2)))"

text \<open>The probe reads no body; a rejected \<open>fetch\<close> is caught and answered with \<open>false\<close>.\<close>

definition checkHealth :: "unit fetched \<Rightarrow> world \<Rightarrow> bool \<times> world" where
  "checkHealth r w =
     (let w1 = fetch HealthRequest w
      in case r of
           Rejected error \<Rightarrow> (False, w1)
         | Resolved resp \<Rightarrow>
             (response_ok resp,
              if response_ok resp \<and> isDemoMode w1 then setDemoMode False [] w1 else w1))"

definition exitDemoMode :: "world \<Rightarrow> world" where
  "exitDemoMode w = setDemoMode False [] w"

text \<open>
  Every call of \<open>api\<close> with its inputs, and the state it leaves. \<open>GetTasksResume\<close> is the
  end of a \<open>getTasks\<close> call whose request was sent while the flag was inactive and
  that other calls have overlapped.
\<close>

datatype event =
    GetTasks "js_string option" nat nat "task_page fetched"
  | GetTask nat "task fetched"
  | CreateTask js_string "task fetched"
  | UpdateTask nat js_string "task fetched"
  | DeleteTask nat "unit fetched"
  | GetLabels "js_string list fetched"
  | GenerateSummary summary_request "summary_response fetched"
  | CheckHealth "unit fetched"
  | ExitDemoMode
  | GetTasksResume "js_string option" "task_page fetched"

fun step :: "env \<Rightarrow> event \<Rightarrow> world \<Rightarrow> world" where
  "step e (GetTasks l sk lim r) w = snd (getTasks e l sk lim r w)"
| "step e (GetTask i r) w = snd (getTask e i r w)"
| "step e (CreateTask desc r) w = snd (createTask e desc r w)"
| "step e (UpdateTask i desc r) w = snd (updateTask e i desc r w)"
| "step e (DeleteTask i r) w = snd (deleteTask e i r w)"
| "step e (GetLabels r) w = snd (getLabels e r w)"
| "step e (GenerateSummary request r) w = snd (generateSummary e request r w)"
| "step e (CheckHealth r) w = snd (checkHealth r w)"
| "step e ExitDemoMode w = exitDemoMode w"
| "step e (GetTasksResume l r) w = snd (getTasksResume e l r w)"

fun run :: "(env \<times> event) list \<Rightarrow> world \<Rightarrow> world" where
  "run [] w = w"
| "run ((e, ev) # evs) w = run evs (step e ev w)"

section \<open>Notions used to state the properties\<close>

text \<open>
  The classification in the words of the specification: whether the failure is a 422,
  whether it carries a signature of a network failure, whether its text is that of an
  HTTP 500 or 503, and the reason chosen by the first of these that holds.
\<close>

definition spec_is422 :: "js_error option \<Rightarrow> nat option \<Rightarrow> bool" where
  "spec_is422 error statusCode =
     (statusCode = Some 422 \<or> errorStatusOf error = Some 422 \<or>
      includes_str (errorMessageOf error) (js ''422''))"

definition networkSignatures :: "js_string list" where
  "networkSignatures =
     map js [''Failed to fetch'', ''NetworkError'', ''TypeError: fetch'', ''CORS'', ''ERR_NETWORK'', ''ERR_INTERNET_DISCONNECTED'', ''net::'']"

definition spec_networkFailure :: "env \<Rightarrow> js_error option \<Rightarrow> bool" where
  "spec_networkFailure e error =
     (list_ex (includes_str (errorMessageOf error)) networkSignatures \<or>
      errorNameOf error = js ''AbortError'' \<or> errorNameOf error = js ''TypeError'' \<or>
      onLine e = False)"

definition spec_serverError :: "js_error option \<Rightarrow> bool" where
  "spec_serverError error =
     (includes_str (errorMessageOf error) (js ''HTTP'') \<and>
      list_ex (includes_str (errorMessageOf error)) (map js [''500'', ''503'']))"

definition spec_reason :: "env \<Rightarrow> js_error option \<Rightarrow> nat option \<Rightarrow> js_string" where
  "spec_reason e error statusCode =
     (if spec_is422 error statusCode then js ''AI processing temporarily unavailable (422 error)''
      else if spec_networkFailure e error then js ''Backend server connection failed''
      else if spec_serverError error then js ''Backend server error''
      else js ''API temporarily unavailable'')"

text \<open>The clock does not run backwards: the readings of successive calls, after \<open>c\<close>.\<close>

fun clockOk :: "int \<Rightarrow> (env \<times> event) list \<Rightarrow> bool" where
  "clockOk c [] = True"
| "clockOk c ((e, ev) # evs) = (c \<le> now e \<and> clockOk (now e) evs)"

text \<open>
  The identifier and the description that a call writes into the local store: a
  \<open>createTask\<close> or an \<open>updateTask\<close> whose remote call failed and that returned a task.
\<close>

fun written :: "env \<Rightarrow> event \<Rightarrow> world \<Rightarrow> (nat \<times> js_string) option" where
  "written e (CreateTask desc r) w =
     (case (remoteJsonText r, fst (createTask e desc r w)) of
        (Inl error, Inr t) \<Rightarrow> Some (task_id t, desc)
      | _ \<Rightarrow> None)"
| "written e (UpdateTask i desc r) w =
     (case (remoteJsonText r, fst (updateTask e i desc r w)) of
        (Inl error, Inr t) \<Rightarrow> Some (task_id t, desc)
      | _ \<Rightarrow> None)"
| "written e ev w = None"

text \<open>For each identifier, the description most recently written during a run.\<close>

fun lastWritten ::
  "(env \<times> event) list \<Rightarrow> world \<Rightarrow> (nat \<rightharpoonup> js_string) \<Rightarrow> (nat \<rightharpoonup> js_string)" where
  "lastWritten [] w g = g"
| "lastWritten ((e, ev) # evs) w g =
     lastWritten evs (step e ev w)
       (case written e ev w of None \<Rightarrow> g | Some (i, d) \<Rightarrow> g(i \<mapsto> d))"

text \<open>The identifiers of the tasks in the store.\<close>

definition storeIds :: "world \<Rightarrow> nat list" where
  "storeIds w = map task_id (mockTasks w)"

text \<open>The events that clear the fallback flag when it is active.\<close>

fun clearing :: "event \<Rightarrow> bool" where
  "clearing ExitDemoMode = True"
| "clearing (CheckHealth (Resolved resp)) = response_ok resp"
| "clearing (GetTasksResume l r) = (\<not> isl (remoteJson r))"
| "clearing ev = False"

text \<open>
  The invariants of the local store: the identifiers are distinct and below \<open>nextId\<close>;
  at clock reading \<open>c\<close>, no task was modified before it was created or after \<open>c\<close>.
\<close>

definition idsInv :: "world \<Rightarrow> bool" where
  "idsInv w = (distinct (storeIds w) \<and> list_all (\<lambda>i. i < nextId w) (storeIds w))"

definition timesInv :: "int \<Rightarrow> world \<Rightarrow> bool" where
  "timesInv c w =
     list_all (\<lambda>t. created_at t \<le> updated_at t \<and> updated_at t \<le> c) (mockTasks w)"

text \<open>Every task of the store carries the description recorded for its identifier.\<close>

definition descInv :: "(nat \<rightharpoonup> js_string) \<Rightarrow> world \<Rightarrow> bool" where
  "descInv g w = list_all (\<lambda>t. g (task_id t) = Some (description t)) (mockTasks w)"

section \<open>Example inputs\<close>

text \<open>
  An instance of the case mappings for the examples: the Basic Latin letters, the Kelvin
  sign (U+212A, lower case \<open>k\<close>) and the capital I with dot above (U+0130, lower case
  \<open>i\<close> followed by U+0307); the other code units are left as they are.
\<close>

definition exampleLowerUnit :: "int \<Rightarrow> js_string" where
  "exampleLowerUnit c =
     (if 0x41 \<le> c \<and> c \<le> 0x5A then [c + 0x20]
      else if c = 0x212A then [0x6B]
      else if c = 0x130 then [0x69, 0x307]
      else [c])"

definition exampleLower :: "js_string \<Rightarrow> js_string" where
  "exampleLower s = concat (map exampleLowerUnit s)"

definition exampleUpper :: "js_string \<Rightarrow> js_string" where
  "exampleUpper s = map (\<lambda>c. if 0x61 \<le> c \<and> c \<le> 0x7A then c - 0x20 else c) s"

text \<open>Two date strings of March 2025 as a zone without offset reads them.\<close>

definition exampleParse :: "js_string \<Rightarrow> int option" where
  "exampleParse s =
     (if s = js ''2025-03-01T00:00'' then Some 1740787200000
      else if s = js ''2025-03-31T23:59'' then Some 1743465540000
      else None)"

definition envAt :: "int \<Rightarrow> env" where
  "envAt t =
     \<lparr>now = t, zone = utc, onLine = True, parseDate = exampleParse,
      lowerCase = exampleLower, upperCase = exampleUpper\<rparr>"

definition env0 :: env where
  \<comment> \<open>2025-03-08T17:00:00Z, a Saturday, in a zone without offset\<close>
  "env0 = envAt 1741453200000"

definition envDst :: env where
  \<comment> \<open>the same instant, noon in a zone that changes its offset the next night\<close>
  "envDst = (envAt 1741453200000)\<lparr>zone := dstZone\<rparr>"

definition networkError :: js_error where
  "networkError = \<lparr>err_name = js ''TypeError'', err_message = js ''Failed to fetch'', err_status = None\<rparr>"

definition abortError :: js_error where
  "abortError =
     \<lparr>err_name = js ''AbortError'', err_message = js ''The operation was aborted.'', err_status = None\<rparr>"

definition okResponse :: "'a \<Rightarrow> 'a response" where
  "okResponse x = \<lparr>status = 200, statusText = js ''OK'', body_text = Inr [], body_json = Inr x\<rparr>"

definition errorResponse :: "nat \<Rightarrow> js_string \<Rightarrow> 'a response" where
  \<comment> \<open>an answer with an error status and no JSON body\<close>
  "errorResponse st txt =
     \<lparr>status = st, statusText = txt, body_text = Inr [],
      body_json = Inl (Error (js ''Unexpected end of JSON input''))\<rparr>"

definition remoteTask :: task where
  "remoteTask =
     \<lparr>task_id = 1,
      title = js ''Remote'',
      description = js ''From the server'',
      label = js ''work'',
      due_date = None,
      created_at = 5,
      updated_at = 5\<rparr>"


definition demoWorld :: world where
  "demoWorld = setDemoMode True (js ''Backend server error'') (initial 0)"

definition exampleRun :: "(env \<times> event) list" where
  "exampleRun =
     [(envAt 10, CreateTask (js ''Buy milk tomorrow'') (Rejected networkError)),
      (envAt 20, UpdateTask 2 (js ''Call the client'') (Rejected networkError)),
      (envAt 30, DeleteTask 1 (Rejected abortError))]"

definition backwardsRun :: "(env \<times> event) list" where
  \<comment> \<open>the clock is set back between the two calls\<close>
  "backwardsRun =
     [(envAt 10, CreateTask (js ''Buy milk tomorrow'') (Rejected networkError)),
      (envAt 5, UpdateTask 2 (js ''Call the client'') (Rejected networkError))]"

section \<open>Properties\<close>

subsection \<open>Auxiliary facts\<close>

lemma includes_str_sublist: "includes_str s p \<longleftrightarrow> sublist p s"
  by (induction s) (auto simp: sublist_Cons_right)

lemma handleApiError_eq:
  "handleApiError e error operation statusCode w =
     (True, setDemoMode True (spec_reason e error statusCode) w)"
  by (auto simp: handleApiError_def spec_reason_def spec_is422_def spec_networkFailure_def
      spec_serverError_def networkSignatures_def Let_def)

lemma setDemoMode_fields [simp]:
  "mockTasks (setDemoMode b s w) = mockTasks w"
  "nextId (setDemoMode b s w) = nextId w"
  "fetchLog (setDemoMode b s w) = fetchLog w"
  "isDemoMode (setDemoMode b s w) = b"
  "demoModeReason (setDemoMode b s w) = s"
  "isUsingMockData (setDemoMode b s w) = b"
  by (simp_all add: setDemoMode_def)

lemma fetch_fields [simp]:
  "mockTasks (fetch q w) = mockTasks w"
  "nextId (fetch q w) = nextId w"
  "fetchLog (fetch q w) = fetchLog w @ [q]"
  "isDemoMode (fetch q w) = isDemoMode w"
  "demoModeReason (fetch q w) = demoModeReason w"
  "isUsingMockData (fetch q w) = isUsingMockData w"
  by (simp_all add: fetch_def)

text \<open>The fallback branches read the store only.\<close>

lemma localList_mode [simp]:
  "localList l (setDemoMode b s w) = localList l w"
  "localList l (fetch q w) = localList l w"
  by (simp_all add: localList_def cong: option.case_cong)

lemma localGet_mode [simp]:
  "localGet i (setDemoMode b s w) = localGet i w"
  "localGet i (fetch q w) = localGet i w"
  by (simp_all add: localGet_def)

lemma localLabels_mode [simp]:
  "localLabels (setDemoMode b s w) = localLabels w"
  "localLabels (fetch q w) = localLabels w"
  by (simp_all add: localLabels_def)

lemma localSummary_mode [simp]:
  "localSummary e q (setDemoMode b s w) = localSummary e q w"
  "localSummary e q (fetch q' w) = localSummary e q w"
  by (simp_all add: localSummary_def)

lemma localCreate_mode [simp]:
  "fst (localCreate e d (setDemoMode b s w)) = fst (localCreate e d w)"
  "fst (localCreate e d (fetch q w)) = fst (localCreate e d w)"
  by (simp_all add: localCreate_def Let_def)

lemma storeIds_mode [simp]:
  "storeIds (setDemoMode b s w) = storeIds w"
  "storeIds (fetch q w) = storeIds w"
  by (simp_all add: storeIds_def)

lemma findIndex_None: "findIndex p xs = None \<longleftrightarrow> (\<forall>x \<in> set xs. \<not> p x)"
  by (induction xs) auto

lemma findIndex_Some:
  "findIndex p xs = Some k \<Longrightarrow> k < length xs \<and> p (xs ! k) \<and> (\<forall>j < k. \<not> p (xs ! j))"
proof (induction xs arbitrary: k)
  case Nil
  then show ?case by simp
next
  case (Cons x xs)
  show ?case
  proof (cases "p x")
    case True
    with Cons.prems show ?thesis by simp
  next
    case False
    with Cons.prems obtain k' where k': "findIndex p xs = Some k'" "k = Suc k'"
      by auto
    from Cons.IH [OF k'(1)] False k'(2) show ?thesis
      by (auto simp: less_Suc_eq_0_disj)
  qed
qed

lemma find_None: "find p xs = None \<longleftrightarrow> (\<forall>x \<in> set xs. \<not> p x)"
  by (auto simp: find_None_iff)


lemma localCreate_fields:
  "task_id (fst (localCreate e d w)) = nextId w"
  "description (fst (localCreate e d w)) = d"
  "created_at (fst (localCreate e d w)) = now e"
  "updated_at (fst (localCreate e d w)) = now e"
  "mockTasks (snd (localCreate e d w)) = mockTasks w @ [fst (localCreate e d w)]"
  "nextId (snd (localCreate e d w)) = Suc (nextId w)"
  "isDemoMode (snd (localCreate e d w)) = isDemoMode w"
  "demoModeReason (snd (localCreate e d w)) = demoModeReason w"
  "fetchLog (snd (localCreate e d w)) = fetchLog w"
  by (simp_all add: localCreate_def Let_def)

lemma findIndex_absent:
  "i \<notin> set (storeIds w) \<Longrightarrow> findIndex (\<lambda>t. task_id t = i) (mockTasks w) = None"
  by (auto simp: findIndex_None storeIds_def)

lemma localUpdate_absent:
  "i \<notin> set (storeIds w) \<Longrightarrow> localUpdate e i d w = (Inl taskNotFound, w)"
  by (simp add: localUpdate_def findIndex_absent)

lemma localUpdate_present:
  assumes "i \<in> set (storeIds w)"
  shows "\<exists>k t. findIndex (\<lambda>t. task_id t = i) (mockTasks w) = Some k \<and> k < length (mockTasks w) \<and>
           task_id (mockTasks w ! k) = i \<and>
           localUpdate e i d w = (Inr t, w\<lparr>mockTasks := (mockTasks w)[k := t]\<rparr>) \<and>
           task_id t = i \<and> created_at t = created_at (mockTasks w ! k) \<and>
           description t = d \<and> updated_at t = now e"
proof -
  from assms have "findIndex (\<lambda>t. task_id t = i) (mockTasks w) \<noteq> None"
    by (auto simp: findIndex_None storeIds_def)
  then obtain k where k: "findIndex (\<lambda>t. task_id t = i) (mockTasks w) = Some k"
    by auto
  from findIndex_Some [OF k] k show ?thesis
    by (simp add: localUpdate_def Let_def)
qed

lemma localDelete_absent: "i \<notin> set (storeIds w) \<Longrightarrow> localDelete i w = w"
  by (simp add: localDelete_def findIndex_absent)

lemma localDelete_present:
  assumes "i \<in> set (storeIds w)"
  shows "\<exists>k. k < length (mockTasks w) \<and> task_id (mockTasks w ! k) = i \<and>
           localDelete i w = w\<lparr>mockTasks := take k (mockTasks w) @ drop (Suc k) (mockTasks w)\<rparr>"
proof -
  from assms have "findIndex (\<lambda>t. task_id t = i) (mockTasks w) \<noteq> None"
    by (auto simp: findIndex_None storeIds_def)
  then obtain k where k: "findIndex (\<lambda>t. task_id t = i) (mockTasks w) = Some k"
    by auto
  from findIndex_Some [OF k] k show ?thesis
    by (intro exI [of _ k]) (simp add: localDelete_def)
qed

lemma localGet_absent:
  assumes "i \<notin> set (storeIds w)"
  shows "localGet i w = Inl taskNotFound"
proof -
  from assms have "find (\<lambda>t. task_id t = i) (mockTasks w) = None"
    by (auto simp: find_None storeIds_def)
  then show ?thesis
    by (simp add: localGet_def)
qed

lemma localGet_present:
  assumes "i \<in> set (storeIds w)"
  shows "\<exists>t. localGet i w = Inr t \<and> t \<in> set (mockTasks w) \<and> task_id t = i"
proof -
  from assms have "find (\<lambda>t. task_id t = i) (mockTasks w) \<noteq> None"
    by (auto simp: find_None storeIds_def)
  then obtain t where t: "find (\<lambda>t. task_id t = i) (mockTasks w) = Some t"
    by auto
  then have "t \<in> set (mockTasks w) \<and> task_id t = i"
    by (auto simp: find_Some_iff)
  with t show ?thesis
    by (simp add: localGet_def)
qed

text \<open>What each operation does, by the outcome of its \<open>try\<close> block.\<close>

lemma getTasks_demo: "isDemoMode w \<Longrightarrow> getTasks e l sk lim r w = (Inr (localList l w), w)"
  by (simp add: getTasks_def)

lemma getTasksResume_remote:
  "remoteJson r = Inr page \<Longrightarrow>
   getTasksResume e l r w = (Inr page, if isDemoMode w then setDemoMode False [] w else w)"
  by (simp add: getTasksResume_def)

lemma getTasksResume_failed:
  "remoteJson r = Inl err \<Longrightarrow>
   getTasksResume e l r w =
     (Inr (localList l w), setDemoMode True (spec_reason e (Some err) None) w)"
  by (simp add: getTasksResume_def Let_def handleApiError_eq)

lemma getTasks_remote:
  "\<not> isDemoMode w \<Longrightarrow> remoteJson r = Inr page \<Longrightarrow>
   getTasks e l sk lim r w = (Inr page, fetch (ListRequest (labelGiven l) sk lim) w)"
  by (simp add: getTasks_def getTasksResume_remote)

lemma getTasks_failed:
  "\<not> isDemoMode w \<Longrightarrow> remoteJson r = Inl err \<Longrightarrow>
   getTasks e l sk lim r w =
     (Inr (localList l w),
      setDemoMode True (spec_reason e (Some err) None) (fetch (ListRequest (labelGiven l) sk lim) w))"
  by (simp add: getTasks_def getTasksResume_failed)

lemma getTask_remote:
  "remoteJson r = Inr t \<Longrightarrow> getTask e i r w = (Inr t, fetch (GetRequest i) w)"
  by (simp add: getTask_def Let_def)

lemma getTask_failed:
  "remoteJson r = Inl err \<Longrightarrow>
   getTask e i r w =
     (localGet i w, setDemoMode True (spec_reason e (Some err) None) (fetch (GetRequest i) w))"
  by (simp add: getTask_def Let_def handleApiError_eq)

lemma createTask_remote:
  "remoteJsonText r = Inr t \<Longrightarrow> createTask e d r w = (Inr t, fetch (CreateRequest d) w)"
  by (simp add: createTask_def Let_def)

lemma createTask_failed:
  "remoteJsonText r = Inl err \<Longrightarrow>
   createTask e d r w =
     (Inr (fst (localCreate e d w)),
      snd (localCreate e d (setDemoMode True (spec_reason e (Some err) None) (fetch (CreateRequest d) w))))"
  by (simp add: createTask_def Let_def handleApiError_eq split_beta)

lemma updateTask_remote:
  "remoteJsonText r = Inr t \<Longrightarrow> updateTask e i d r w = (Inr t, fetch (UpdateRequest i d) w)"
  by (simp add: updateTask_def Let_def)

lemma updateTask_failed:
  "remoteJsonText r = Inl err \<Longrightarrow>
   updateTask e i d r w =
     localUpdate e i d (setDemoMode True (spec_reason e (Some err) None) (fetch (UpdateRequest i d) w))"
  by (simp add: updateTask_def Let_def handleApiError_eq)

lemma deleteTask_remote:
  "remoteVoid r = Inr u \<Longrightarrow> deleteTask e i r w = (Inr (), fetch (DeleteRequest i) w)"
  by (simp add: deleteTask_def Let_def)

lemma deleteTask_failed:
  "remoteVoid r = Inl err \<Longrightarrow>
   deleteTask e i r w =
     (Inr (), localDelete i (setDemoMode True (spec_reason e (Some err) None) (fetch (DeleteRequest i) w)))"
  by (simp add: deleteTask_def Let_def handleApiError_eq)

lemma getLabels_remote:
  "remoteJson r = Inr ls \<Longrightarrow> getLabels e r w = (Inr ls, fetch LabelsRequest w)"
  by (simp add: getLabels_def Let_def)

lemma getLabels_failed:
  "remoteJson r = Inl err \<Longrightarrow>
   getLabels e r w =
     (Inr (localLabels w), setDemoMode True (spec_reason e (Some err) None) (fetch LabelsRequest w))"
  by (simp add: getLabels_def Let_def handleApiError_eq)

lemma generateSummary_remote:
  "remoteJsonText r = Inr s \<Longrightarrow>
   generateSummary e q r w = (Inr s, fetch (SummaryRequest (start_date q) (end_date q)) w)"
  by (simp add: generateSummary_def Let_def)

lemma generateSummary_failed:
  "remoteJsonText r = Inl err \<Longrightarrow>
   generateSummary e q r w =
     (Inr (localSummary e q w),
      setDemoMode True (spec_reason e (Some err) None)
        (fetch (SummaryRequest (start_date q) (end_date q)) w))"
  by (simp add: generateSummary_def Let_def handleApiError_eq)

lemma localUpdate_mode: "isDemoMode (snd (localUpdate e i d w)) = isDemoMode w"
  by (simp add: localUpdate_def Let_def split: option.splits)

lemma localDelete_mode: "isDemoMode (localDelete i w) = isDemoMode w"
  by (simp add: localDelete_def split: option.splits)

lemma localUpdate_store_only [simp]:
  "fst (localUpdate e i d (setDemoMode b s w)) = fst (localUpdate e i d w)"
  "fst (localUpdate e i d (fetch q w)) = fst (localUpdate e i d w)"
  "mockTasks (snd (localUpdate e i d (setDemoMode b s w))) = mockTasks (snd (localUpdate e i d w))"
  "mockTasks (snd (localUpdate e i d (fetch q w))) = mockTasks (snd (localUpdate e i d w))"
  "nextId (snd (localUpdate e i d w)) = nextId w"
  by (simp_all add: localUpdate_def Let_def split: option.splits)

lemma localDelete_store_only [simp]:
  "mockTasks (localDelete i (setDemoMode b s w)) = mockTasks (localDelete i w)"
  "mockTasks (localDelete i (fetch q w)) = mockTasks (localDelete i w)"
  "nextId (localDelete i w) = nextId w"
  by (simp_all add: localDelete_def split: option.splits)

subsection \<open>Field extraction\<close>

lemma extractLabel_spec: "extractLabel (lowerCase e d) = spec_category e d"
  by (simp add: extractLabel_def spec_category_def buckets_def bucketMatches_def
      workBucket_def shoppingBucket_def healthBucket_def urgentBucket_def)

lemma spec_category_nonempty: "spec_category e d \<noteq> []"
  by (simp add: spec_category_def buckets_def bucketMatches_def
      workBucket_def shoppingBucket_def healthBucket_def urgentBucket_def js_def)

lemma processed_label: "p_label (processTaskDescription e d) = spec_category e d"
  by (simp add: processTaskDescription_def extractLabel_spec)

text \<open>
  C6. The category that \<open>processTaskDescription\<close> returns is the name of the first
  bucket, in the order work, shopping, health, urgent, one of whose keywords occurs as
  a run of code units in the lower-cased description, and \<open>personal\<close> when there is
  none; the lower-casing is that of the runtime, whatever it maps. A description that
  matches the work bucket and the shopping bucket gets \<open>work\<close>. A task created in the
  local store carries this category as its label.
\<close>

theorem C6_category_first_bucket:
  "p_label (processTaskDescription e d) = spec_category e d \<and>
   (bucketMatches e d workBucket \<and> bucketMatches e d shoppingBucket \<longrightarrow>
      p_label (processTaskDescription e d) = js ''work'') \<and>
   (bucketMatches e d b \<longleftrightarrow> (\<exists>k \<in> set (snd b). sublist k (lowerCase e d))) \<and>
   label (fst (localCreate e d w)) = spec_category e d"
proof -
  have 1: "p_label (processTaskDescription e d) = spec_category e d"
    by (rule processed_label)
  have 2: "bucketMatches e d workBucket \<and> bucketMatches e d shoppingBucket \<longrightarrow>
      p_label (processTaskDescription e d) = js ''work''"
    by (simp add: 1 spec_category_def buckets_def workBucket_def)
  have 3: "bucketMatches e d b \<longleftrightarrow> (\<exists>k \<in> set (snd b). sublist k (lowerCase e d))"
    by (simp add: bucketMatches_def list_ex_iff includes_str_sublist)
  have 4: "label (fst (localCreate e d w)) = spec_category e d"
    using spec_category_nonempty [of e d] by (simp add: localCreate_def Let_def orElse_def 1)
  show ?thesis
    by (intro conjI 1 2 3 4)
qed

theorem C6_witness:
  "bucketMatches env0 (js ''Buy slides for the client MEETING'') workBucket \<and>
   bucketMatches env0 (js ''Buy slides for the client MEETING'') shoppingBucket \<and>
   p_label (processTaskDescription env0 (js ''Buy slides for the client MEETING'')) = js ''work'' \<and>
   spec_category env0 (js ''Buy slides for the client MEETING'') = js ''work'' \<and>
   p_label (processTaskDescription env0 (js ''WOR'' @ [0x212A] @ js '' late'')) = js ''work'' \<and>
   p_label (processTaskDescription env0 (js ''Water the plants'')) = js ''personal''"
proof -
  note fact = C6_category_first_bucket [of env0 "js ''Buy slides for the client MEETING''"
      workBucket "initial 0"]
  note both = fact [THEN conjunct2, THEN conjunct1, rule_format]
  have w: "bucketMatches env0 (js ''Buy slides for the client MEETING'') workBucket"
    by code_simp
  have s: "bucketMatches env0 (js ''Buy slides for the client MEETING'') shoppingBucket"
    by code_simp
  have l: "p_label (processTaskDescription env0 (js ''Buy slides for the client MEETING'')) =
      js ''work''"
    using both [OF conjI [OF w s]] .
  have c: "spec_category env0 (js ''Buy slides for the client MEETING'') = js ''work''"
    using fact [THEN conjunct1] l by simp
  have k: "p_label (processTaskDescription env0 (js ''WOR'' @ [0x212A] @ js '' late'')) = js ''work''"
    by code_simp
  have p: "p_label (processTaskDescription env0 (js ''Water the plants'')) = js ''personal''"
    by code_simp
  show ?thesis
    by (intro conjI w s l c k p)
qed

lemma WeekDay_range: "0 \<le> WeekDay l \<and> WeekDay l < 7"
  unfolding WeekDay_def by simp

lemma daysUntil_eq:
  assumes "0 \<le> target" "target < 7" "0 \<le> wd" "wd < 7"
  shows "daysUntil target wd = (if wd < target then target - wd else target - wd + 7)"
proof (cases "wd < target")
  case True
  with assms have "(target - wd + 7) mod 7 = target - wd"
    by simp
  with True show ?thesis
    by (simp add: daysUntil_def Let_def)
next
  case False
  show ?thesis
  proof (cases "wd = target")
    case True
    then show ?thesis by (simp add: daysUntil_def Let_def)
  next
    case ne: False
    with False assms have "(target - wd + 7) mod 7 = target - wd + 7"
      by (intro mod_pos_pos_trivial) auto
    with False ne assms show ?thesis
      by (simp add: daysUntil_def Let_def)
  qed
qed

lemma daysUntil_hits:
  assumes "0 \<le> target" "target < 7"
  shows "(WeekDay l + daysUntil target (WeekDay l)) mod 7 = target"
  using assms WeekDay_range [of l]
  by (simp add: daysUntil_eq)

lemma daysUntil_first:
  assumes "0 \<le> target" "target < 7" "1 \<le> j" "j < daysUntil target (WeekDay l)"
  shows "(WeekDay l + j) mod 7 \<noteq> target"
proof (cases "WeekDay l < target")
  case True
  with assms WeekDay_range [of l] have "j < target - WeekDay l"
    by (simp add: daysUntil_eq)
  with assms WeekDay_range [of l] have "(WeekDay l + j) mod 7 = WeekDay l + j" "WeekDay l + j < target"
    by simp_all
  then show ?thesis by simp
next
  case False
  with assms WeekDay_range [of l] have "j < target - WeekDay l + 7"
    by (simp add: daysUntil_eq)
  with False assms have b: "target < WeekDay l + j" "WeekDay l + j < target + 7"
    by simp_all
  show ?thesis
  proof
    assume "(WeekDay l + j) mod 7 = target"
    then have "7 dvd (WeekDay l + j - target)"
      by (metis mod_eq_dvd_iff assms(1,2) mod_pos_pos_trivial)
    then obtain m where m: "WeekDay l + j - target = 7 * m" ..
    with b have "0 < 7 * m" "7 * m < 7" by simp_all
    then show False by simp
  qed
qed

lemma daysUntil_range: "1 \<le> daysUntil target wd \<and> daysUntil target wd \<le> 7"
proof -
  have "0 \<le> (target - wd + 7) mod 7" "(target - wd + 7) mod 7 < 7"
    by simp_all
  then show ?thesis
    by (auto simp: daysUntil_def Let_def)
qed

lemma Day_plus_days: "Day (l + k * msPerDay) = Day l + k"
  unfolding Day_def msPerDay_def by simp

lemma WeekDay_plus_days: "WeekDay (l + k * msPerDay) = (WeekDay l + k) mod 7"
proof -
  have "WeekDay (l + k * msPerDay) = (Day l + k + 4) mod 7"
    by (simp add: WeekDay_def Day_plus_days)
  also have "\<dots> = ((Day l + 4) mod 7 + k) mod 7"
    by (simp add: mod_simps algebra_simps)
  finally show ?thesis
    by (simp add: WeekDay_def)
qed

lemma setDate_getDate:
  "setDate tz (getDate tz t + n) t = UTC tz (LocalTime tz t + n * msPerDay)"
  by (simp add: setDate_def getDate_def DateFromDay_def MakeDay_def MakeDate_def Let_def
      MonthFromDay_def Day_def TimeWithinDay_def algebra_simps)


lemma extractDueDate_eq:
  "extractDueDate e s =
     (let tz = zone e; l = LocalTime tz (now e)
      in if includes_str s (js ''tomorrow'') then Some (UTC tz (l + 1 * msPerDay))
         else if includes_str s (js ''next week'') then Some (UTC tz (l + 7 * msPerDay))
         else if includes_str s (js ''friday'') then
           Some (UTC tz (l + daysUntil 5 (WeekDay l) * msPerDay))
         else if includes_str s (js ''next month'') then
           Some (setMonth tz (getMonth tz (now e) + 1) (now e))
         else if includes_str s (js ''monday'') then
           Some (UTC tz (l + daysUntil 1 (WeekDay l) * msPerDay))
         else None)"
  by (simp add: extractDueDate_def Let_def setDate_getDate getDay_def)

lemma same_offset_next_day:
  assumes "zone e (LocalTime (zone e) (now e) + msPerDay) False = zone e (now e) True"
  shows "UTC (zone e) (LocalTime (zone e) (now e) + 1 * msPerDay) = now e + 24 * 3600000"
  using assms by (simp add: UTC_def LocalTime_def msPerDay_def)

text \<open>
  C5, as the specification states it, fails. A description with both ``next month'' and
  ``friday'' gets the date of the coming Friday, not the date a month ahead: the code
  tests ``friday'' before ``next month''. And in a zone whose offset changes during
  the next day, ``tomorrow'' is 23 hours after the extraction time, not 24.
\<close>

theorem C5_counterexample:
  "includes_str (lowerCase env0 (js ''Report next month, by Friday'')) (js ''next month'') \<and>
   \<not> includes_str (lowerCase env0 (js ''Report next month, by Friday'')) (js ''tomorrow'') \<and>
   \<not> includes_str (lowerCase env0 (js ''Report next month, by Friday'')) (js ''next week'') \<and>
   p_due_date (processTaskDescription env0 (js ''Report next month, by Friday'')) =
     Some 1741971600000 \<and>
   setMonth (zone env0) (getMonth (zone env0) (now env0) + 1) (now env0) = 1744131600000 \<and>
   includes_str (lowerCase envDst (js ''Buy milk tomorrow'')) (js ''tomorrow'') \<and>
   p_due_date (processTaskDescription envDst (js ''Buy milk tomorrow'')) =
     Some (now envDst + 23 * 3600000)"
  by code_simp

text \<open>
  C5, amended. The due date is decided by the first keyword found in the lower-cased
  description in the order tomorrow, next week, friday, next month, monday, and is
  absent when none is found. ``Tomorrow'' is the local time of the extraction plus one
  day, converted back to UTC; that is exactly 24 hours after the extraction time
  whenever the offset used to convert back equals the offset at the extraction time,
  as it always does in a zone with a fixed offset. ``Friday'' and ``monday'' are the
  local time plus \<open>k\<close> days, converted back to UTC, where \<open>k\<close> is between one and seven
  and the local time so reached is on the first local day after the day of extraction
  that has the weekday asked for; it is never on the day of extraction.
\<close>

theorem C5_due_date_priority:
  "p_due_date (processTaskDescription e d) =
     (let s = lowerCase e d; tz = zone e; l = LocalTime tz (now e)
      in if includes_str s (js ''tomorrow'') then Some (UTC tz (l + 1 * msPerDay))
         else if includes_str s (js ''next week'') then Some (UTC tz (l + 7 * msPerDay))
         else if includes_str s (js ''friday'') then
           Some (UTC tz (l + daysUntil 5 (WeekDay l) * msPerDay))
         else if includes_str s (js ''next month'') then
           Some (setMonth tz (getMonth tz (now e) + 1) (now e))
         else if includes_str s (js ''monday'') then
           Some (UTC tz (l + daysUntil 1 (WeekDay l) * msPerDay))
         else None) \<and>
   (includes_str (lowerCase e d) (js ''tomorrow'') \<and>
    zone e (LocalTime (zone e) (now e) + msPerDay) False = zone e (now e) True \<longrightarrow>
      p_due_date (processTaskDescription e d) = Some (now e + 24 * 3600000)) \<and>
   (includes_str (lowerCase e d) (js ''tomorrow'') \<and> zone e = fixedZone off \<longrightarrow>
      p_due_date (processTaskDescription e d) = Some (now e + 24 * 3600000)) \<and>
   (target = 5 \<or> target = 1 \<longrightarrow>
      1 \<le> daysUntil target (WeekDay t) \<and> daysUntil target (WeekDay t) \<le> 7 \<and>
      WeekDay (t + daysUntil target (WeekDay t) * msPerDay) = target \<and>
      Day (t + daysUntil target (WeekDay t) * msPerDay) = Day t + daysUntil target (WeekDay t) \<and>
      (\<forall>j. 1 \<le> j \<and> j < daysUntil target (WeekDay t) \<longrightarrow>
           WeekDay (t + j * msPerDay) \<noteq> target))"
proof -
  have 1: "p_due_date (processTaskDescription e d) =
     (let s = lowerCase e d; tz = zone e; l = LocalTime tz (now e)
      in if includes_str s (js ''tomorrow'') then Some (UTC tz (l + 1 * msPerDay))
         else if includes_str s (js ''next week'') then Some (UTC tz (l + 7 * msPerDay))
         else if includes_str s (js ''friday'') then
           Some (UTC tz (l + daysUntil 5 (WeekDay l) * msPerDay))
         else if includes_str s (js ''next month'') then
           Some (setMonth tz (getMonth tz (now e) + 1) (now e))
         else if includes_str s (js ''monday'') then
           Some (UTC tz (l + daysUntil 1 (WeekDay l) * msPerDay))
         else None)"
    by (simp add: processTaskDescription_def extractDueDate_eq Let_def)
  have 2: "includes_str (lowerCase e d) (js ''tomorrow'') \<and>
      zone e (LocalTime (zone e) (now e) + msPerDay) False = zone e (now e) True \<longrightarrow>
      p_due_date (processTaskDescription e d) = Some (now e + 24 * 3600000)"
  proof
    assume a: "includes_str (lowerCase e d) (js ''tomorrow'') \<and>
      zone e (LocalTime (zone e) (now e) + msPerDay) False = zone e (now e) True"
    then have "p_due_date (processTaskDescription e d) =
        Some (UTC (zone e) (LocalTime (zone e) (now e) + 1 * msPerDay))"
      by (simp add: processTaskDescription_def extractDueDate_eq Let_def)
    with a show "p_due_date (processTaskDescription e d) = Some (now e + 24 * 3600000)"
      by (simp only: same_offset_next_day)
  qed
  have 3: "includes_str (lowerCase e d) (js ''tomorrow'') \<and> zone e = fixedZone off \<longrightarrow>
      p_due_date (processTaskDescription e d) = Some (now e + 24 * 3600000)"
  proof
    assume a: "includes_str (lowerCase e d) (js ''tomorrow'') \<and> zone e = fixedZone off"
    then have "zone e (LocalTime (zone e) (now e) + msPerDay) False = zone e (now e) True"
      by (simp add: fixedZone_def)
    with a 2 show "p_due_date (processTaskDescription e d) = Some (now e + 24 * 3600000)"
      by simp
  qed
  have 4: "target = 5 \<or> target = 1 \<longrightarrow>
      1 \<le> daysUntil target (WeekDay t) \<and> daysUntil target (WeekDay t) \<le> 7 \<and>
      WeekDay (t + daysUntil target (WeekDay t) * msPerDay) = target \<and>
      Day (t + daysUntil target (WeekDay t) * msPerDay) = Day t + daysUntil target (WeekDay t) \<and>
      (\<forall>j. 1 \<le> j \<and> j < daysUntil target (WeekDay t) \<longrightarrow>
           WeekDay (t + j * msPerDay) \<noteq> target)"
  proof
    assume "target = 5 \<or> target = 1"
    then have r: "0 \<le> target" "target < 7" by auto
    show "1 \<le> daysUntil target (WeekDay t) \<and> daysUntil target (WeekDay t) \<le> 7 \<and>
      WeekDay (t + daysUntil target (WeekDay t) * msPerDay) = target \<and>
      Day (t + daysUntil target (WeekDay t) * msPerDay) = Day t + daysUntil target (WeekDay t) \<and>
      (\<forall>j. 1 \<le> j \<and> j < daysUntil target (WeekDay t) \<longrightarrow>
           WeekDay (t + j * msPerDay) \<noteq> target)"
      using daysUntil_range [of target "WeekDay t"] daysUntil_hits [OF r, of t]
        daysUntil_first [OF r, of _ t]
      by (simp add: WeekDay_plus_days Day_plus_days)
  qed
  show ?thesis
    by (intro conjI 1 2 3 4)
qed

theorem C5_witness:
  "zone env0 = fixedZone 0 \<and>
   includes_str (lowerCase env0 (js ''Buy milk tomorrow'')) (js ''tomorrow'') \<and>
   p_due_date (processTaskDescription env0 (js ''Buy milk tomorrow'')) = Some (now env0 + 86400000) \<and>
   WeekDay (now env0) = 6 \<and> daysUntil 5 (WeekDay (now env0)) = 6 \<and>
   WeekDay (now env0 + 6 * msPerDay) = 5 \<and>
   p_due_date (processTaskDescription env0 (js ''Dentist on FRIDAY'')) = Some (now env0 + 6 * msPerDay) \<and>
   p_due_date (processTaskDescription env0 (js ''Water the plants'')) = None"
proof -
  note fact = C5_due_date_priority [of env0 "js ''Buy milk tomorrow''" 0 5 "now env0"]
  note tomorrow = fact [THEN conjunct2, THEN conjunct2, THEN conjunct1, rule_format]
  note weekday = fact [THEN conjunct2, THEN conjunct2, THEN conjunct2, rule_format]
  have z: "zone env0 = fixedZone 0"
    by (simp add: env0_def envAt_def utc_def)
  have k: "includes_str (lowerCase env0 (js ''Buy milk tomorrow'')) (js ''tomorrow'')"
    by code_simp
  have wd: "WeekDay (now env0) = 6"
    by (simp add: env0_def envAt_def WeekDay_def Day_def msPerDay_def)
  have du: "daysUntil 5 (WeekDay (now env0)) = 6"
    by (simp add: wd daysUntil_def)
  have five: "(5::int) = 5 \<or> (5::int) = 1"
    by simp
  have t: "p_due_date (processTaskDescription env0 (js ''Buy milk tomorrow'')) =
      Some (now env0 + 86400000)"
    using tomorrow [OF conjI [OF k z]] by simp
  have "WeekDay (now env0 + daysUntil 5 (WeekDay (now env0)) * msPerDay) = 5"
    using weekday [OF five] by (elim conjE)
  then have f: "WeekDay (now env0 + 6 * msPerDay) = 5"
    by (simp only: du)
  have g: "p_due_date (processTaskDescription env0 (js ''Dentist on FRIDAY'')) =
      Some (now env0 + 6 * msPerDay)"
    by code_simp
  have n: "p_due_date (processTaskDescription env0 (js ''Water the plants'')) = None"
    by code_simp
  show ?thesis
    by (intro conjI z k t wd du f g n)
qed

subsection \<open>The fallback flag and the remote call\<close>





text \<open>Which events clear the flag when it is active.\<close>

lemma flag_cleared_iff:
  assumes "isDemoMode w"
  shows "(\<not> isDemoMode (step e ev w)) = clearing ev"
proof (cases ev)
  case (GetTasks l sk lim r)
  with assms show ?thesis by (simp add: getTasks_demo)
next
  case (GetTask i r)
  with assms show ?thesis
    by (cases "remoteJson r") (simp_all add: getTask_remote getTask_failed)
next
  case (CreateTask d r)
  with assms show ?thesis
    by (cases "remoteJsonText r") (simp_all add: createTask_remote createTask_failed localCreate_fields)
next
  case (UpdateTask i d r)
  with assms show ?thesis
    by (cases "remoteJsonText r") (simp_all add: updateTask_remote updateTask_failed localUpdate_mode)
next
  case (DeleteTask i r)
  with assms show ?thesis
    by (cases "remoteVoid r") (simp_all add: deleteTask_remote deleteTask_failed localDelete_mode)
next
  case (GetLabels r)
  with assms show ?thesis
    by (cases "remoteJson r") (simp_all add: getLabels_remote getLabels_failed)
next
  case (GenerateSummary q r)
  with assms show ?thesis
    by (cases "remoteJsonText r") (simp_all add: generateSummary_remote generateSummary_failed)
next
  case (CheckHealth r)
  with assms show ?thesis
    by (cases r) (simp_all add: checkHealth_def Let_def)
next
  case ExitDemoMode
  then show ?thesis by (simp add: exitDemoMode_def)
next
  case (GetTasksResume l r)
  with assms show ?thesis
    by (cases "remoteJson r") (simp_all add: getTasksResume_remote getTasksResume_failed)
qed

text \<open>
  C2. The specification has every operation leave fallback when its remote call
  succeeds while the flag is active; the comment in \<open>getTasks\<close> says so too
  (``Successfully connected - exit demo mode if we were in it''). The code does it in
  \<open>getTasks\<close> and \<open>checkHealth\<close> only. Here \<open>getLabels\<close> is answered 503, which sets the
  flag; then \<open>createTask\<close> is answered with a task: the call returns that task and the
  flag and its reason stay as they were.
\<close>

theorem C2_no_self_healing:
  "isDemoMode (step env0 (GetLabels (Resolved (errorResponse 503 (js ''Service Unavailable''))))
     (initial 0)) \<and>
   remoteJsonText (Resolved (okResponse remoteTask)) = Inr remoteTask \<and>
   fst (createTask env0 (js ''Call the client'') (Resolved (okResponse remoteTask))
     (step env0 (GetLabels (Resolved (errorResponse 503 (js ''Service Unavailable''))))
       (initial 0))) = Inr remoteTask \<and>
   isDemoMode (snd (createTask env0 (js ''Call the client'') (Resolved (okResponse remoteTask))
     (step env0 (GetLabels (Resolved (errorResponse 503 (js ''Service Unavailable''))))
       (initial 0)))) \<and>
   demoModeReason (snd (createTask env0 (js ''Call the client'') (Resolved (okResponse remoteTask))
     (step env0 (GetLabels (Resolved (errorResponse 503 (js ''Service Unavailable''))))
       (initial 0)))) = js ''Backend server error''"
  by code_simp

subsection \<open>The classifier\<close>

text \<open>
  C3. \<open>handleApiError\<close> always answers \<open>true\<close> and enters fallback; the reason is chosen
  by the first rule that matches, in the order 422, network failure, HTTP 500/503,
  anything else.
\<close>

theorem C3_classifier_first_match:
  "fst (handleApiError e error operation statusCode w) = True \<and>
   snd (handleApiError e error operation statusCode w) =
     setDemoMode True
       (if spec_is422 error statusCode then js ''AI processing temporarily unavailable (422 error)''
        else if spec_networkFailure e error then js ''Backend server connection failed''
        else if spec_serverError error then js ''Backend server error''
        else js ''API temporarily unavailable'') w"
  by (simp add: handleApiError_eq spec_reason_def)

theorem C3_witness:
  "spec_is422 (Some (httpError 422 (js ''Unprocessable Entity''))) None \<and>
   handleApiError env0 (Some (httpError 422 (js ''Unprocessable Entity''))) (js ''createTask'') None (initial 0) =
     (True, setDemoMode True (js ''AI processing temporarily unavailable (422 error)'') (initial 0)) \<and>
   \<not> spec_is422 (Some abortError) None \<and> spec_networkFailure env0 (Some abortError) \<and>
   handleApiError env0 (Some abortError) (js ''getTasks'') None (initial 0) =
     (True, setDemoMode True (js ''Backend server connection failed'') (initial 0)) \<and>
   handleApiError env0 (Some (httpError 503 (js ''Service Unavailable''))) (js ''getTasks'') None (initial 0) =
     (True, setDemoMode True (js ''Backend server error'') (initial 0)) \<and>
   handleApiError env0 (Some (httpError 404 (js ''Not Found''))) (js ''getTask'') None (initial 0) =
     (True, setDemoMode True (js ''API temporarily unavailable'') (initial 0))"
proof -
  note f422 = C3_classifier_first_match [of env0 "Some (httpError 422 (js ''Unprocessable Entity''))"
      "js ''createTask''" None "initial 0"]
  note fAbort = C3_classifier_first_match [of env0 "Some abortError" "js ''getTasks''" None "initial 0"]
  note f503 = C3_classifier_first_match [of env0 "Some (httpError 503 (js ''Service Unavailable''))"
      "js ''getTasks''" None "initial 0"]
  note f404 = C3_classifier_first_match [of env0 "Some (httpError 404 (js ''Not Found''))"
      "js ''getTask''" None "initial 0"]
  have a1: "spec_is422 (Some (httpError 422 (js ''Unprocessable Entity''))) None"
    by code_simp
  have b1: "\<not> spec_is422 (Some abortError) None"
    by code_simp
  have b2: "spec_networkFailure env0 (Some abortError)"
    by code_simp
  have c1: "\<not> spec_is422 (Some (httpError 503 (js ''Service Unavailable''))) None"
    by code_simp
  have c2: "\<not> spec_networkFailure env0 (Some (httpError 503 (js ''Service Unavailable'')))"
    by code_simp
  have c3: "spec_serverError (Some (httpError 503 (js ''Service Unavailable'')))"
    by code_simp
  have d1: "\<not> spec_is422 (Some (httpError 404 (js ''Not Found''))) None"
    by code_simp
  have d2: "\<not> spec_networkFailure env0 (Some (httpError 404 (js ''Not Found'')))"
    by code_simp
  have d3: "\<not> spec_serverError (Some (httpError 404 (js ''Not Found'')))"
    by code_simp
  have h1: "handleApiError env0 (Some (httpError 422 (js ''Unprocessable Entity''))) (js ''createTask'') None
      (initial 0) =
      (True, setDemoMode True (js ''AI processing temporarily unavailable (422 error)'') (initial 0))"
    using f422 by (simp only: a1 if_True prod_eq_iff fst_conv snd_conv simp_thms)
  have h2: "handleApiError env0 (Some abortError) (js ''getTasks'') None (initial 0) =
      (True, setDemoMode True (js ''Backend server connection failed'') (initial 0))"
    using fAbort by (simp only: b1 b2 if_True if_False prod_eq_iff fst_conv snd_conv simp_thms)
  have h3: "handleApiError env0 (Some (httpError 503 (js ''Service Unavailable''))) (js ''getTasks'') None
      (initial 0) =
      (True, setDemoMode True (js ''Backend server error'') (initial 0))"
    using f503 by (simp only: c1 c2 c3 if_True if_False prod_eq_iff fst_conv snd_conv simp_thms)
  have h4: "handleApiError env0 (Some (httpError 404 (js ''Not Found''))) (js ''getTask'') None
      (initial 0) =
      (True, setDemoMode True (js ''API temporarily unavailable'') (initial 0))"
    using f404 by (simp only: d1 d2 d3 if_True if_False prod_eq_iff fst_conv snd_conv simp_thms)
  show ?thesis
    by (intro conjI a1 h1 b1 b2 h2 h3 h4)
qed

subsection \<open>Remote failures\<close>

text \<open>What the fallback branches return, stated without them.\<close>

lemma localList_spec:
  "sorted (map (\<lambda>t. - created_at t) (tasks (localList l w))) \<and>
   mset (tasks (localList l w)) =
     mset (case labelGiven l of
             None \<Rightarrow> mockTasks w
           | Some s \<Rightarrow> filter (\<lambda>t. label t = s) (mockTasks w)) \<and>
   total (localList l w) = length (tasks (localList l w)) \<and>
   skip (localList l w) = 0 \<and> limit (localList l w) = 50"
  by (simp add: localList_def Let_def split: option.splits)

lemma fromSet_snoc:
  "fromSet (xs @ [x]) = (if x \<in> set xs then fromSet xs else fromSet xs @ [x])"
  by (simp add: fromSet_def)

lemma set_fromSet [simp]: "set (fromSet xs) = set xs"
  by (simp add: fromSet_def)

lemma distinct_fromSet [simp]: "distinct (fromSet xs)"
  by (simp add: fromSet_def)

lemma localLabels_spec:
  "sorted (localLabels w) \<and> distinct (localLabels w) \<and>
   set (localLabels w) = label ` set (mockTasks w)"
  by (simp add: localLabels_def)

lemma map_of_counts:
  "map_of (map (\<lambda>l. (l, f l)) ks) x = (if x \<in> set ks then Some (f x) else None)"
  by (induction ks) auto

lemma labelCounts_spec:
  "foldl bumpCount [] ls = map (\<lambda>l. (l, count_list ls l)) (fromSet ls)"
proof (induction ls rule: rev_induct)
  case Nil
  show ?case by (simp add: fromSet_def)
next
  case (snoc x xs)
  show ?case
  proof (cases "x \<in> set xs")
    case True
    have "map (\<lambda>(k, v). if k = x then (k, v + 1) else (k, v))
            (map (\<lambda>l. (l, count_list xs l)) (fromSet xs)) =
          map (\<lambda>l. (l, count_list (xs @ [x]) l)) (fromSet xs)"
      by (rule nth_equalityI) simp_all
    with True snoc show ?thesis
      by (simp add: bumpCount_def map_of_counts fromSet_snoc)
  next
    case False
    then have "count_list xs x = 0"
      by (simp add: count_list_0_iff)
    moreover from False
    have "map (\<lambda>l. (l, count_list (xs @ [x]) l)) (fromSet xs) =
          map (\<lambda>l. (l, count_list xs l)) (fromSet xs)"
      by (intro map_cong) auto
    ultimately show ?thesis
      using False snoc by (simp add: bumpCount_def map_of_counts fromSet_snoc)
  qed
qed

lemma localSummary_spec:
  "task_count (localSummary e q w) = length (filter (inRange e q) (mockTasks w)) \<and>
   response_start_date (localSummary e q w) = start_date q \<and>
   response_end_date (localSummary e q w) = end_date q \<and>
   summary (localSummary e q w) =
     summaryText e (length (filter (inRange e q) (mockTasks w)))
       (map (\<lambda>l. (l, count_list (map label (filter (inRange e q) (mockTasks w))) l))
          (fromSet (map label (filter (inRange e q) (mockTasks w)))))"
  by (simp add: localSummary_def Let_def labelCounts_spec)

lemma summaryText_header:
  "take 47 (summaryText e n cs) = js ''DEMO MODE ANALYSIS - AI TEMPORARILY UNAVAILABLE''"
  by (simp add: summaryText_def joinWith_def js_def)

lemma localCreate_spec:
  "task_id (fst (localCreate e d w)) = nextId w \<and>
   description (fst (localCreate e d w)) = d \<and>
   label (fst (localCreate e d w)) = spec_category e d \<and>
   due_date (fst (localCreate e d w)) = p_due_date (processTaskDescription e d) \<and>
   created_at (fst (localCreate e d w)) = now e \<and>
   updated_at (fst (localCreate e d w)) = now e \<and>
   mockTasks (snd (localCreate e d w)) = mockTasks w @ [fst (localCreate e d w)] \<and>
   nextId (snd (localCreate e d w)) = nextId w + 1"
  using spec_category_nonempty [of e d]
  by (simp add: localCreate_def Let_def orElse_def processed_label)

lemma localUpdate_spec:
  assumes "i \<in> set (storeIds w)"
  shows "\<exists>k t. k < length (mockTasks w) \<and> task_id (mockTasks w ! k) = i \<and>
           (\<forall>j < k. task_id (mockTasks w ! j) \<noteq> i) \<and>
           fst (localUpdate e i d w) = Inr t \<and>
           mockTasks (snd (localUpdate e i d w)) = (mockTasks w)[k := t] \<and>
           task_id t = i \<and> created_at t = created_at (mockTasks w ! k) \<and>
           description t = d \<and> label t = spec_category e d \<and>
           due_date t = p_due_date (processTaskDescription e d) \<and> updated_at t = now e"
proof -
  from assms have "findIndex (\<lambda>t. task_id t = i) (mockTasks w) \<noteq> None"
    by (auto simp: findIndex_None storeIds_def)
  then obtain k where k: "findIndex (\<lambda>t. task_id t = i) (mockTasks w) = Some k"
    by auto
  from findIndex_Some [OF k] k spec_category_nonempty [of e d] show ?thesis
    by (intro exI [of _ k]) (simp add: localUpdate_def Let_def orElse_def processed_label)
qed

lemma localDelete_spec:
  assumes "i \<in> set (storeIds w)"
  shows "\<exists>k. k < length (mockTasks w) \<and> task_id (mockTasks w ! k) = i \<and>
           (\<forall>j < k. task_id (mockTasks w ! j) \<noteq> i) \<and>
           mockTasks (localDelete i w) = take k (mockTasks w) @ drop (Suc k) (mockTasks w)"
proof -
  from assms have "findIndex (\<lambda>t. task_id t = i) (mockTasks w) \<noteq> None"
    by (auto simp: findIndex_None storeIds_def)
  then obtain k where k: "findIndex (\<lambda>t. task_id t = i) (mockTasks w) = Some k"
    by auto
  from findIndex_Some [OF k] k show ?thesis
    by (intro exI [of _ k]) (simp add: localDelete_def)
qed

text \<open>
  C4. When the remote call of an operation fails, the operation resolves with what
  the local store gives, in either mode: \<open>getTasks\<close> with the stored tasks that pass the
  label filter, newest first, their number, skip 0 and limit 50; \<open>createTask\<close> with a
  new task that has the next identifier, the description as given, the extracted
  category and due date and the clock reading as both time stamps, and that is appended
  to the store; \<open>deleteTask\<close> with nothing, the first stored task with the identifier
  being removed if there is one; \<open>getLabels\<close> with the labels of the stored tasks,
  each once, in ascending order; \<open>generateSummary\<close> with the number of stored tasks
  created in the range, the two dates as given and the fixed report printed for the
  counts of each label in the range. \<open>getTask\<close> resolves with a stored task that has the
  identifier and \<open>updateTask\<close> with the first such task, rewritten from the new
  description and put back in its place; these two reject, with the error
  \<open>Task not found\<close>, exactly when no stored task has the identifier.
\<close>

theorem C4_failures_absorbed:
  "(isl (remoteJson rl) \<longrightarrow>
      (\<exists>p. fst (getTasks e l sk lim rl w) = Inr p \<and>
           sorted (map (\<lambda>t. - created_at t) (tasks p)) \<and>
           mset (tasks p) =
             mset (case labelGiven l of
                     None \<Rightarrow> mockTasks w
                   | Some s \<Rightarrow> filter (\<lambda>t. label t = s) (mockTasks w)) \<and>
           total p = length (tasks p) \<and> skip p = 0 \<and> limit p = 50)) \<and>
   (isl (remoteJson rg) \<longrightarrow>
      (if i \<in> set (storeIds w)
       then \<exists>t. fst (getTask e i rg w) = Inr t \<and> t \<in> set (mockTasks w) \<and> task_id t = i
       else fst (getTask e i rg w) = Inl (Error (js ''Task not found'')))) \<and>
   (isl (remoteJsonText rc) \<longrightarrow>
      (\<exists>t. fst (createTask e d rc w) = Inr t \<and>
           task_id t = nextId w \<and> description t = d \<and> label t = spec_category e d \<and>
           due_date t = p_due_date (processTaskDescription e d) \<and>
           created_at t = now e \<and> updated_at t = now e \<and>
           mockTasks (snd (createTask e d rc w)) = mockTasks w @ [t] \<and>
           nextId (snd (createTask e d rc w)) = nextId w + 1)) \<and>
   (isl (remoteJsonText ru) \<longrightarrow>
      (if i \<in> set (storeIds w)
       then \<exists>k t. k < length (mockTasks w) \<and> task_id (mockTasks w ! k) = i \<and>
              (\<forall>j < k. task_id (mockTasks w ! j) \<noteq> i) \<and>
              fst (updateTask e i d ru w) = Inr t \<and>
              mockTasks (snd (updateTask e i d ru w)) = (mockTasks w)[k := t] \<and>
              task_id t = i \<and> created_at t = created_at (mockTasks w ! k) \<and>
              description t = d \<and> label t = spec_category e d \<and>
              due_date t = p_due_date (processTaskDescription e d) \<and> updated_at t = now e
       else fst (updateTask e i d ru w) = Inl (Error (js ''Task not found'')) \<and>
            mockTasks (snd (updateTask e i d ru w)) = mockTasks w)) \<and>
   (isl (remoteVoid rd) \<longrightarrow>
      fst (deleteTask e i rd w) = Inr () \<and>
      (if i \<in> set (storeIds w)
       then \<exists>k. k < length (mockTasks w) \<and> task_id (mockTasks w ! k) = i \<and>
              (\<forall>j < k. task_id (mockTasks w ! j) \<noteq> i) \<and>
              mockTasks (snd (deleteTask e i rd w)) =
                take k (mockTasks w) @ drop (Suc k) (mockTasks w)
       else mockTasks (snd (deleteTask e i rd w)) = mockTasks w)) \<and>
   (isl (remoteJson rb) \<longrightarrow>
      (\<exists>ls. fst (getLabels e rb w) = Inr ls \<and> sorted ls \<and> distinct ls \<and>
            set ls = label ` set (mockTasks w))) \<and>
   (isl (remoteJsonText rs) \<longrightarrow>
      (\<exists>s. fst (generateSummary e q rs w) = Inr s \<and>
           task_count s = length (filter (inRange e q) (mockTasks w)) \<and>
           response_start_date s = start_date q \<and> response_end_date s = end_date q \<and>
           summary s =
             summaryText e (length (filter (inRange e q) (mockTasks w)))
               (map (\<lambda>l. (l, count_list (map label (filter (inRange e q) (mockTasks w))) l))
                  (fromSet (map label (filter (inRange e q) (mockTasks w))))) \<and>
           take 47 (summary s) = js ''DEMO MODE ANALYSIS - AI TEMPORARILY UNAVAILABLE''))"
proof -
  have 1: "isl (remoteJson rl) \<longrightarrow>
      (\<exists>p. fst (getTasks e l sk lim rl w) = Inr p \<and>
           sorted (map (\<lambda>t. - created_at t) (tasks p)) \<and>
           mset (tasks p) =
             mset (case labelGiven l of
                     None \<Rightarrow> mockTasks w
                   | Some s \<Rightarrow> filter (\<lambda>t. label t = s) (mockTasks w)) \<and>
           total p = length (tasks p) \<and> skip p = 0 \<and> limit p = 50)"
  proof
    assume "isl (remoteJson rl)"
    then have "fst (getTasks e l sk lim rl w) = Inr (localList l w)"
      by (cases "isDemoMode w") (auto simp: getTasks_demo getTasks_failed isl_def)
    with localList_spec [of l w] show "\<exists>p. fst (getTasks e l sk lim rl w) = Inr p \<and>
           sorted (map (\<lambda>t. - created_at t) (tasks p)) \<and>
           mset (tasks p) =
             mset (case labelGiven l of
                     None \<Rightarrow> mockTasks w
                   | Some s \<Rightarrow> filter (\<lambda>t. label t = s) (mockTasks w)) \<and>
           total p = length (tasks p) \<and> skip p = 0 \<and> limit p = 50"
      by (intro exI [of _ "localList l w"]) simp
  qed
  have 2: "isl (remoteJson rg) \<longrightarrow>
      (if i \<in> set (storeIds w)
       then \<exists>t. fst (getTask e i rg w) = Inr t \<and> t \<in> set (mockTasks w) \<and> task_id t = i
       else fst (getTask e i rg w) = Inl (Error (js ''Task not found'')))"
  proof
    assume "isl (remoteJson rg)"
    then have g: "fst (getTask e i rg w) = localGet i w"
      by (auto simp: getTask_failed isl_def)
    show "if i \<in> set (storeIds w)
       then \<exists>t. fst (getTask e i rg w) = Inr t \<and> t \<in> set (mockTasks w) \<and> task_id t = i
       else fst (getTask e i rg w) = Inl (Error (js ''Task not found''))"
    proof (cases "i \<in> set (storeIds w)")
      case True
      with localGet_present [OF True] g show ?thesis by simp
    next
      case False
      with localGet_absent [OF False] g show ?thesis by (simp add: taskNotFound_def)
    qed
  qed
  have 3: "isl (remoteJsonText rc) \<longrightarrow>
      (\<exists>t. fst (createTask e d rc w) = Inr t \<and>
           task_id t = nextId w \<and> description t = d \<and> label t = spec_category e d \<and>
           due_date t = p_due_date (processTaskDescription e d) \<and>
           created_at t = now e \<and> updated_at t = now e \<and>
           mockTasks (snd (createTask e d rc w)) = mockTasks w @ [t] \<and>
           nextId (snd (createTask e d rc w)) = nextId w + 1)"
  proof
    assume "isl (remoteJsonText rc)"
    then obtain err where "remoteJsonText rc = Inl err"
      by (auto simp: isl_def)
    then have c: "fst (createTask e d rc w) = Inr (fst (localCreate e d w))"
      "mockTasks (snd (createTask e d rc w)) = mockTasks w @ [fst (localCreate e d w)]"
      "nextId (snd (createTask e d rc w)) = nextId w + 1"
      by (simp_all add: createTask_failed localCreate_fields)
    with localCreate_spec [of e d w] show "\<exists>t. fst (createTask e d rc w) = Inr t \<and>
           task_id t = nextId w \<and> description t = d \<and> label t = spec_category e d \<and>
           due_date t = p_due_date (processTaskDescription e d) \<and>
           created_at t = now e \<and> updated_at t = now e \<and>
           mockTasks (snd (createTask e d rc w)) = mockTasks w @ [t] \<and>
           nextId (snd (createTask e d rc w)) = nextId w + 1"
      by (intro exI [of _ "fst (localCreate e d w)"]) simp
  qed
  have 4: "isl (remoteJsonText ru) \<longrightarrow>
      (if i \<in> set (storeIds w)
       then \<exists>k t. k < length (mockTasks w) \<and> task_id (mockTasks w ! k) = i \<and>
              (\<forall>j < k. task_id (mockTasks w ! j) \<noteq> i) \<and>
              fst (updateTask e i d ru w) = Inr t \<and>
              mockTasks (snd (updateTask e i d ru w)) = (mockTasks w)[k := t] \<and>
              task_id t = i \<and> created_at t = created_at (mockTasks w ! k) \<and>
              description t = d \<and> label t = spec_category e d \<and>
              due_date t = p_due_date (processTaskDescription e d) \<and> updated_at t = now e
       else fst (updateTask e i d ru w) = Inl (Error (js ''Task not found'')) \<and>
            mockTasks (snd (updateTask e i d ru w)) = mockTasks w)"
  proof
    assume "isl (remoteJsonText ru)"
    then obtain err where "remoteJsonText ru = Inl err"
      by (auto simp: isl_def)
    then have u: "fst (updateTask e i d ru w) = fst (localUpdate e i d w)"
      "mockTasks (snd (updateTask e i d ru w)) = mockTasks (snd (localUpdate e i d w))"
      by (simp_all add: updateTask_failed)
    show "if i \<in> set (storeIds w)
       then \<exists>k t. k < length (mockTasks w) \<and> task_id (mockTasks w ! k) = i \<and>
              (\<forall>j < k. task_id (mockTasks w ! j) \<noteq> i) \<and>
              fst (updateTask e i d ru w) = Inr t \<and>
              mockTasks (snd (updateTask e i d ru w)) = (mockTasks w)[k := t] \<and>
              task_id t = i \<and> created_at t = created_at (mockTasks w ! k) \<and>
              description t = d \<and> label t = spec_category e d \<and>
              due_date t = p_due_date (processTaskDescription e d) \<and> updated_at t = now e
       else fst (updateTask e i d ru w) = Inl (Error (js ''Task not found'')) \<and>
            mockTasks (snd (updateTask e i d ru w)) = mockTasks w"
    proof (cases "i \<in> set (storeIds w)")
      case True
      with localUpdate_spec [OF True, of e d] show ?thesis
        by (simp only: u if_True)
    next
      case False
      with localUpdate_absent [OF False, of e d] u show ?thesis
        by (simp add: taskNotFound_def)
    qed
  qed
  have 5: "isl (remoteVoid rd) \<longrightarrow>
      fst (deleteTask e i rd w) = Inr () \<and>
      (if i \<in> set (storeIds w)
       then \<exists>k. k < length (mockTasks w) \<and> task_id (mockTasks w ! k) = i \<and>
              (\<forall>j < k. task_id (mockTasks w ! j) \<noteq> i) \<and>
              mockTasks (snd (deleteTask e i rd w)) =
                take k (mockTasks w) @ drop (Suc k) (mockTasks w)
       else mockTasks (snd (deleteTask e i rd w)) = mockTasks w)"
  proof
    assume "isl (remoteVoid rd)"
    then obtain err where "remoteVoid rd = Inl err"
      by (auto simp: isl_def)
    then have dl: "fst (deleteTask e i rd w) = Inr ()"
      "mockTasks (snd (deleteTask e i rd w)) = mockTasks (localDelete i w)"
      by (simp_all add: deleteTask_failed)
    have "if i \<in> set (storeIds w)
       then \<exists>k. k < length (mockTasks w) \<and> task_id (mockTasks w ! k) = i \<and>
              (\<forall>j < k. task_id (mockTasks w ! j) \<noteq> i) \<and>
              mockTasks (snd (deleteTask e i rd w)) =
                take k (mockTasks w) @ drop (Suc k) (mockTasks w)
       else mockTasks (snd (deleteTask e i rd w)) = mockTasks w"
    proof (cases "i \<in> set (storeIds w)")
      case True
      with localDelete_spec [OF True] show ?thesis
        by (simp only: dl if_True)
    next
      case False
      with localDelete_absent [OF False] dl show ?thesis
        by simp
    qed
    with dl(1) show "fst (deleteTask e i rd w) = Inr () \<and>
      (if i \<in> set (storeIds w)
       then \<exists>k. k < length (mockTasks w) \<and> task_id (mockTasks w ! k) = i \<and>
              (\<forall>j < k. task_id (mockTasks w ! j) \<noteq> i) \<and>
              mockTasks (snd (deleteTask e i rd w)) =
                take k (mockTasks w) @ drop (Suc k) (mockTasks w)
       else mockTasks (snd (deleteTask e i rd w)) = mockTasks w)"
      by (intro conjI)
  qed
  have 6: "isl (remoteJson rb) \<longrightarrow>
      (\<exists>ls. fst (getLabels e rb w) = Inr ls \<and> sorted ls \<and> distinct ls \<and>
            set ls = label ` set (mockTasks w))"
  proof
    assume "isl (remoteJson rb)"
    then have "fst (getLabels e rb w) = Inr (localLabels w)"
      by (auto simp: getLabels_failed isl_def)
    with localLabels_spec [of w] show "\<exists>ls. fst (getLabels e rb w) = Inr ls \<and> sorted ls \<and>
        distinct ls \<and> set ls = label ` set (mockTasks w)"
      by (intro exI [of _ "localLabels w"]) simp
  qed
  have 7: "isl (remoteJsonText rs) \<longrightarrow>
      (\<exists>s. fst (generateSummary e q rs w) = Inr s \<and>
           task_count s = length (filter (inRange e q) (mockTasks w)) \<and>
           response_start_date s = start_date q \<and> response_end_date s = end_date q \<and>
           summary s =
             summaryText e (length (filter (inRange e q) (mockTasks w)))
               (map (\<lambda>l. (l, count_list (map label (filter (inRange e q) (mockTasks w))) l))
                  (fromSet (map label (filter (inRange e q) (mockTasks w))))) \<and>
           take 47 (summary s) = js ''DEMO MODE ANALYSIS - AI TEMPORARILY UNAVAILABLE'')"
  proof
    assume "isl (remoteJsonText rs)"
    then have "fst (generateSummary e q rs w) = Inr (localSummary e q w)"
      by (auto simp: generateSummary_failed isl_def)
    with localSummary_spec [of e q w] show "\<exists>s. fst (generateSummary e q rs w) = Inr s \<and>
           task_count s = length (filter (inRange e q) (mockTasks w)) \<and>
           response_start_date s = start_date q \<and> response_end_date s = end_date q \<and>
           summary s =
             summaryText e (length (filter (inRange e q) (mockTasks w)))
               (map (\<lambda>l. (l, count_list (map label (filter (inRange e q) (mockTasks w))) l))
                  (fromSet (map label (filter (inRange e q) (mockTasks w))))) \<and>
           take 47 (summary s) = js ''DEMO MODE ANALYSIS - AI TEMPORARILY UNAVAILABLE''"
      by (intro exI [of _ "localSummary e q w"]) (simp add: summaryText_header)
  qed
  show ?thesis
    by (intro conjI 1 2 3 4 5 6 7)
qed

theorem C4_witness:
  "isl (remoteJson (Rejected networkError :: task fetched)) \<and>
   7 \<notin> set (storeIds demoWorld) \<and> 7 \<notin> set (storeIds (initial 0)) \<and>
   fst (getTask env0 7 (Rejected networkError) demoWorld) = Inl (Error (js ''Task not found'')) \<and>
   fst (getTask env0 7 (Rejected networkError) (initial 0)) = Inl (Error (js ''Task not found'')) \<and>
   fst (getTask env0 1 (Rejected networkError) (initial 0)) = Inr (sampleTask 0) \<and>
   fst (updateTask env0 7 (js ''Call the client'') (Rejected networkError) (initial 0)) =
     Inl (Error (js ''Task not found'')) \<and>
   map task_id (mockTasks (snd (createTask env0 (js ''Buy milk'') (Rejected abortError) (initial 0)))) =
     [1, 2] \<and>
   mockTasks (snd (deleteTask env0 1 (Rejected networkError) (initial 0))) = [] \<and>
   fst (getLabels env0 (Rejected networkError)
     (snd (createTask env0 (js ''Buy milk'') (Rejected abortError) (initial 0)))) =
     Inr [js ''personal'', js ''shopping''] \<and>
   (case fst (generateSummary env0
        \<lparr>start_date = js ''2025-03-01T00:00'', end_date = js ''2025-03-31T23:59''\<rparr>
        (Rejected abortError) (initial 1741000000000)) of
      Inl err \<Rightarrow> False
    | Inr s \<Rightarrow> task_count s = 1)"
proof -
  note demo = C4_failures_absorbed [where i = 7 and rg = "Rejected networkError" and w = demoWorld
      and e = env0, THEN conjunct2, THEN conjunct1, rule_format]
  note live = C4_failures_absorbed [where i = 7 and rg = "Rejected networkError" and w = "initial 0"
      and e = env0, THEN conjunct2, THEN conjunct1, rule_format]
  note upd = C4_failures_absorbed [where i = 7 and ru = "Rejected networkError" and w = "initial 0"
      and e = env0 and d = "js ''Call the client''", THEN conjunct2, THEN conjunct2,
      THEN conjunct2, THEN conjunct1, rule_format]
  have f: "isl (remoteJson (Rejected networkError :: task fetched))"
    by (simp add: remoteJson_def)
  have ft: "isl (remoteJsonText (Rejected networkError :: task fetched))"
    by (simp add: remoteJsonText_def)
  have a: "7 \<notin> set (storeIds demoWorld)"
    by (simp add: storeIds_def demoWorld_def initial_def sampleTask_def)
  have b: "7 \<notin> set (storeIds (initial 0))"
    by (simp add: storeIds_def initial_def sampleTask_def)
  have g1: "fst (getTask env0 7 (Rejected networkError) demoWorld) = Inl (Error (js ''Task not found''))"
    using demo [OF f] a by (simp only: if_False)
  have g2: "fst (getTask env0 7 (Rejected networkError) (initial 0)) = Inl (Error (js ''Task not found''))"
    using live [OF f] b by (simp only: if_False)
  have g3: "fst (getTask env0 1 (Rejected networkError) (initial 0)) = Inr (sampleTask 0)"
    by code_simp
  have u: "fst (updateTask env0 7 (js ''Call the client'') (Rejected networkError) (initial 0)) =
     Inl (Error (js ''Task not found''))"
    using upd [OF ft] b by (simp only: if_False)
  have c: "map task_id (mockTasks (snd (createTask env0 (js ''Buy milk'') (Rejected abortError)
      (initial 0)))) = [1, 2]"
    by code_simp
  have d: "mockTasks (snd (deleteTask env0 1 (Rejected networkError) (initial 0))) = []"
    by code_simp
  have l: "fst (getLabels env0 (Rejected networkError)
     (snd (createTask env0 (js ''Buy milk'') (Rejected abortError) (initial 0)))) =
     Inr [js ''personal'', js ''shopping'']"
    by code_simp
  have s: "case fst (generateSummary env0
        \<lparr>start_date = js ''2025-03-01T00:00'', end_date = js ''2025-03-31T23:59''\<rparr>
        (Rejected abortError) (initial 1741000000000)) of
      Inl err \<Rightarrow> False
    | Inr s \<Rightarrow> task_count s = 1"
    by code_simp
  show ?thesis
    by (intro conjI f a b g1 g2 g3 u c d l s)
qed

subsection \<open>The health probe\<close>

text \<open>
  C8. \<open>checkHealth\<close> returns whether the probe was answered with an ok status, and false
  when the probe was rejected; it never touches the local store. A successful probe
  while the flag is active clears the flag and the reason; a failed probe leaves flag
  and reason as they are.
\<close>

theorem C8_checkHealth_probe:
  "fst (checkHealth r w) =
     (case r of Rejected error \<Rightarrow> False | Resolved resp \<Rightarrow> response_ok resp) \<and>
   mockTasks (snd (checkHealth r w)) = mockTasks w \<and>
   nextId (snd (checkHealth r w)) = nextId w \<and>
   (fst (checkHealth r w) \<and> isDemoMode w \<longrightarrow>
      \<not> isDemoMode (snd (checkHealth r w)) \<and> demoModeReason (snd (checkHealth r w)) = []) \<and>
   (\<not> fst (checkHealth r w) \<longrightarrow>
      isDemoMode (snd (checkHealth r w)) = isDemoMode w \<and>
      demoModeReason (snd (checkHealth r w)) = demoModeReason w \<and>
      isUsingMockData (snd (checkHealth r w)) = isUsingMockData w)"
  by (cases r) (simp_all add: checkHealth_def Let_def)

theorem C8_witness:
  "isDemoMode demoWorld \<and>
   fst (checkHealth (Resolved (okResponse ())) demoWorld) \<and>
   \<not> isDemoMode (snd (checkHealth (Resolved (okResponse ())) demoWorld)) \<and>
   demoModeReason (snd (checkHealth (Resolved (okResponse ())) demoWorld)) = [] \<and>
   \<not> fst (checkHealth (Rejected abortError) (initial 0)) \<and>
   \<not> isDemoMode (snd (checkHealth (Rejected abortError) (initial 0))) \<and>
   \<not> fst (checkHealth (Rejected abortError) demoWorld) \<and>
   demoModeReason (snd (checkHealth (Rejected abortError) demoWorld)) = js ''Backend server error''"
  using C8_checkHealth_probe [of "Resolved (okResponse ())" demoWorld]
    C8_checkHealth_probe [of "Rejected abortError" "initial 0"]
    C8_checkHealth_probe [of "Rejected abortError" demoWorld]
  by (simp add: demoWorld_def okResponse_def response_ok_def initial_def)

subsection \<open>The local list\<close>

text \<open>
  C9. When \<open>getTasks\<close> answers from the local store (flag active, or remote call
  failed), the page holds every stored task that passes the label filter, newest first,
  and reports skip 0 and limit 50; the \<open>skip\<close> and \<open>limit\<close> arguments have no effect on
  the answer.
\<close>

theorem C9_local_list_ignores_paging:
  "isDemoMode w \<or> isl (remoteJson r) \<Longrightarrow>
   fst (getTasks e l sk lim r w) = Inr (localList l w) \<and>
   skip (localList l w) = 0 \<and> limit (localList l w) = 50 \<and>
   mset (tasks (localList l w)) =
     mset (case labelGiven l of
             None \<Rightarrow> mockTasks w
           | Some s \<Rightarrow> filter (\<lambda>t. label t = s) (mockTasks w)) \<and>
   total (localList l w) = length (tasks (localList l w)) \<and>
   (\<forall>sk' lim'. fst (getTasks e l sk' lim' r w) = fst (getTasks e l sk lim r w))"
proof -
  assume local: "isDemoMode w \<or> isl (remoteJson r)"
  have served: "fst (getTasks e l sk' lim' r w) = Inr (localList l w)" for sk' lim'
  proof (cases "isDemoMode w")
    case True
    then show ?thesis by (simp add: getTasks_demo)
  next
    case False
    with local obtain err where "remoteJson r = Inl err"
      by (auto simp: isl_def)
    with False show ?thesis by (simp add: getTasks_failed)
  qed
  have page: "skip (localList l w) = 0 \<and> limit (localList l w) = 50 \<and>
      mset (tasks (localList l w)) =
        mset (case labelGiven l of
                None \<Rightarrow> mockTasks w
              | Some s \<Rightarrow> filter (\<lambda>t. label t = s) (mockTasks w)) \<and>
      total (localList l w) = length (tasks (localList l w))"
    by (simp add: localList_def Let_def split: option.splits)
  from served page show ?thesis by simp
qed

theorem C9_witness:
  "isDemoMode demoWorld \<and>
   fst (getTasks env0 None 100 1 (Rejected networkError) demoWorld) =
     Inr \<lparr>tasks = [sampleTask 0], total = 1, skip = 0, limit = 50\<rparr>"
  using C9_local_list_ignores_paging [of demoWorld "Rejected networkError" env0 None 100 1]
  by (simp add: demoWorld_def initial_def localList_def labelGiven_def)

subsection \<open>Deleting an absent task\<close>

text \<open>
  C10. When the remote delete fails and the identifier is not in the local store,
  \<open>deleteTask\<close> resolves, the store and \<open>nextId\<close> are as before, and the state differs
  from the state before only in the flag and the reason that the classifier sets (and
  in the record of the attempted call). \<open>deleteTask\<close> resolves with the same value in
  every case, so the caller cannot tell this one from a successful delete.
\<close>

theorem C10_delete_absent_id:
  "isl (remoteVoid r) \<Longrightarrow> i \<notin> set (storeIds w) \<Longrightarrow>
   fst (deleteTask e i r w) = Inr () \<and>
   mockTasks (snd (deleteTask e i r w)) = mockTasks w \<and>
   nextId (snd (deleteTask e i r w)) = nextId w \<and>
   snd (deleteTask e i r w) =
     setDemoMode True (spec_reason e (Some (projl (remoteVoid r))) None)
       (fetch (DeleteRequest i) w) \<and>
   (\<forall>e' j r' w'. fst (deleteTask e' j r' w') = fst (deleteTask e i r w))"
proof -
  assume r: "isl (remoteVoid r)" and i: "i \<notin> set (storeIds w)"
  from r obtain err where err: "remoteVoid r = Inl err"
    by (auto simp: isl_def)
  have all: "fst (deleteTask e' j r' w') = Inr ()" for e' j r' w'
    by (cases "remoteVoid r'") (simp_all add: deleteTask_remote deleteTask_failed)
  from err i all show ?thesis
    by (simp add: deleteTask_failed localDelete_absent)
qed

theorem C10_witness:
  "isl (remoteVoid (Rejected networkError :: unit fetched)) \<and>
   7 \<notin> set (storeIds (initial 0)) \<and>
   fst (deleteTask env0 7 (Rejected networkError) (initial 0)) = Inr () \<and>
   mockTasks (snd (deleteTask env0 7 (Rejected networkError) (initial 0))) = [sampleTask 0] \<and>
   isDemoMode (snd (deleteTask env0 7 (Rejected networkError) (initial 0)))"
  using C10_delete_absent_id [of "Rejected networkError" 7 "initial 0" env0]
  by (simp add: remoteVoid_def storeIds_def initial_def sampleTask_def)

subsection \<open>Invariants of the local store\<close>

lemma run_append: "run (evs1 @ evs2) w = run evs2 (run evs1 w)"
  by (induction evs1 arbitrary: w) auto

lemma step_store:
  obtains
    (same) "mockTasks (step e ev w) = mockTasks w" "nextId (step e ev w) = nextId w"
      "written e ev w = None"
  | (create) d where "mockTasks (step e ev w) = mockTasks w @ [fst (localCreate e d w)]"
      "nextId (step e ev w) = Suc (nextId w)" "written e ev w = Some (nextId w, d)"
  | (update) i d k t where "k < length (mockTasks w)" "task_id (mockTasks w ! k) = i"
      "mockTasks (step e ev w) = (mockTasks w)[k := t]" "task_id t = i"
      "created_at t = created_at (mockTasks w ! k)" "description t = d"
      "updated_at t = now e" "nextId (step e ev w) = nextId w" "written e ev w = Some (i, d)"
  | (delete) k where "k < length (mockTasks w)"
      "mockTasks (step e ev w) = take k (mockTasks w) @ drop (Suc k) (mockTasks w)"
      "nextId (step e ev w) = nextId w" "written e ev w = None"
proof (cases ev)
  case (GetTasks l sk lim r)
  have "mockTasks (step e ev w) = mockTasks w \<and> nextId (step e ev w) = nextId w"
  proof (cases "isDemoMode w")
    case True
    with GetTasks show ?thesis by (simp add: getTasks_demo)
  next
    case False
    with GetTasks show ?thesis
      by (cases "remoteJson r") (simp_all add: getTasks_remote getTasks_failed)
  qed
  with GetTasks show ?thesis by (intro same) simp_all
next
  case (GetTask i r)
  then have "mockTasks (step e ev w) = mockTasks w \<and> nextId (step e ev w) = nextId w"
    by (cases "remoteJson r") (simp_all add: getTask_remote getTask_failed)
  with GetTask show ?thesis by (intro same) simp_all
next
  case (CreateTask d r)
  show ?thesis
  proof (cases "remoteJsonText r")
    case (Inr t)
    with CreateTask show ?thesis
      by (intro same) (simp_all add: createTask_remote)
  next
    case (Inl err)
    with CreateTask show ?thesis
      by (intro create [of d]) (simp_all add: createTask_failed localCreate_fields)
  qed
next
  case (UpdateTask i d r)
  show ?thesis
  proof (cases "remoteJsonText r")
    case (Inr t)
    with UpdateTask show ?thesis
      by (intro same) (simp_all add: updateTask_remote)
  next
    case (Inl err)
    let ?w2 = "setDemoMode True (spec_reason e (Some err) None) (fetch (UpdateRequest i d) w)"
    from Inl have u: "updateTask e i d r w = localUpdate e i d ?w2"
      by (rule updateTask_failed)
    show ?thesis
    proof (cases "i \<in> set (storeIds w)")
      case False
      then have "localUpdate e i d ?w2 = (Inl taskNotFound, ?w2)"
        by (simp add: localUpdate_absent)
      with UpdateTask Inl u show ?thesis
        by (intro same) simp_all
    next
      case True
      then have "i \<in> set (storeIds ?w2)" by simp
      from localUpdate_present [OF this, of e d] obtain k t where
        kt: "k < length (mockTasks w)" "task_id (mockTasks w ! k) = i"
          "localUpdate e i d ?w2 = (Inr t, ?w2\<lparr>mockTasks := (mockTasks ?w2)[k := t]\<rparr>)"
          "task_id t = i" "created_at t = created_at (mockTasks w ! k)"
          "description t = d" "updated_at t = now e"
        by auto
      with UpdateTask Inl u show ?thesis
        by (intro update [of k i t d]) simp_all
    qed
  qed
next
  case (DeleteTask i r)
  show ?thesis
  proof (cases "remoteVoid r")
    case (Inr u)
    with DeleteTask show ?thesis
      by (intro same) (simp_all add: deleteTask_remote)
  next
    case (Inl err)
    let ?w2 = "setDemoMode True (spec_reason e (Some err) None) (fetch (DeleteRequest i) w)"
    from Inl have u: "deleteTask e i r w = (Inr (), localDelete i ?w2)"
      by (rule deleteTask_failed)
    show ?thesis
    proof (cases "i \<in> set (storeIds w)")
      case False
      then have "localDelete i ?w2 = ?w2"
        by (simp add: localDelete_absent)
      with DeleteTask u show ?thesis
        by (intro same) simp_all
    next
      case True
      then have "i \<in> set (storeIds ?w2)" by simp
      from localDelete_present [OF this] obtain k where
        k: "k < length (mockTasks w)"
          "localDelete i ?w2 =
             ?w2\<lparr>mockTasks := take k (mockTasks ?w2) @ drop (Suc k) (mockTasks ?w2)\<rparr>"
        by auto
      with DeleteTask u show ?thesis
        by (intro delete [of k]) simp_all
    qed
  qed
next
  case (GetLabels r)
  then have "mockTasks (step e ev w) = mockTasks w \<and> nextId (step e ev w) = nextId w"
    by (cases "remoteJson r") (simp_all add: getLabels_remote getLabels_failed)
  with GetLabels show ?thesis by (intro same) simp_all
next
  case (GenerateSummary q r)
  then have "mockTasks (step e ev w) = mockTasks w \<and> nextId (step e ev w) = nextId w"
    by (cases "remoteJsonText r") (simp_all add: generateSummary_remote generateSummary_failed)
  with GenerateSummary show ?thesis by (intro same) simp_all
next
  case (CheckHealth r)
  then have "mockTasks (step e ev w) = mockTasks w \<and> nextId (step e ev w) = nextId w"
    by (cases r) (simp_all add: checkHealth_def Let_def)
  with CheckHealth show ?thesis by (intro same) simp_all
next
  case ExitDemoMode
  then show ?thesis by (intro same) (simp_all add: exitDemoMode_def)
next
  case (GetTasksResume l r)
  then have "mockTasks (step e ev w) = mockTasks w \<and> nextId (step e ev w) = nextId w"
    by (cases "remoteJson r") (simp_all add: getTasksResume_remote getTasksResume_failed)
  with GetTasksResume show ?thesis by (intro same) simp_all
qed


lemma distinct_remove_nth:
  assumes "distinct ys"
  shows "distinct (take k ys @ drop (Suc k) ys)"
proof -
  have "distinct (take k ys @ drop k ys)"
    using assms by simp
  then have d: "distinct (take k ys)" "distinct (drop k ys)"
    "set (take k ys) \<inter> set (drop k ys) = {}"
    by (simp_all only: distinct_append)
  have "set (drop (Suc k) ys) \<subseteq> set (drop k ys)"
    by (rule set_drop_subset_set_drop) simp
  with d(3) have "set (take k ys) \<inter> set (drop (Suc k) ys) = {}"
    by blast
  moreover have "distinct (drop (Suc k) ys)"
    using assms by simp
  ultimately show ?thesis
    using d(1) by simp
qed

lemma set_remove_nth: "set (take k ys @ drop (Suc k) ys) \<subseteq> set ys"
  using set_take_subset [of k ys] set_drop_subset [of "Suc k" ys] by auto

lemma nextId_step: "nextId w \<le> nextId (step e ev w)"
  by (cases e ev w rule: step_store) simp_all

lemma nextId_run: "nextId w \<le> nextId (run evs w)"
proof (induction evs arbitrary: w)
  case Nil
  show ?case by simp
next
  case (Cons a evs)
  obtain e ev where a: "a = (e, ev)" by (cases a)
  have "nextId w \<le> nextId (step e ev w)" by (rule nextId_step)
  also have "\<dots> \<le> nextId (run evs (step e ev w))" by (rule Cons.IH)
  finally show ?case by (simp add: a)
qed

lemma idsInv_step:
  assumes "idsInv w"
  shows "idsInv (step e ev w)"
proof -
  from assms have d: "distinct (map task_id (mockTasks w))"
    and b: "\<forall>t \<in> set (mockTasks w). task_id t < nextId w"
    by (simp_all add: idsInv_def storeIds_def list_all_iff)
  show ?thesis
  proof (cases e ev w rule: step_store)
    case same
    with assms show ?thesis by (simp add: idsInv_def storeIds_def)
  next
    case (create d')
    from b have "nextId w \<notin> task_id ` set (mockTasks w)" by auto
    with d b create show ?thesis
      by (auto simp: idsInv_def storeIds_def list_all_iff localCreate_fields less_Suc_eq)
  next
    case (update i d' k t)
    from update(1,2,4) have "(map task_id (mockTasks w))[k := task_id t] = map task_id (mockTasks w)"
      by (intro list_update_same_conv [THEN iffD2]) simp_all
    then have ids: "map task_id ((mockTasks w)[k := t]) = map task_id (mockTasks w)"
      by (simp add: map_update)
    have "set ((mockTasks w)[k := t]) \<subseteq> insert t (set (mockTasks w))"
      by (rule set_update_subset_insert)
    moreover from update(1,2,4) b have "task_id t < nextId w"
      using nth_mem [of k "mockTasks w"] by auto
    ultimately have "\<forall>u \<in> set ((mockTasks w)[k := t]). task_id u < nextId w"
      using b by auto
    with d ids update(3,8) b show ?thesis
      by (simp add: idsInv_def storeIds_def list_all_iff)
  next
    case (delete k)
    define ys where "ys = take k (mockTasks w) @ drop (Suc k) (mockTasks w)"
    from d have "distinct (take k (map task_id (mockTasks w)) @ drop (Suc k) (map task_id (mockTasks w)))"
      by (rule distinct_remove_nth)
    then have 1: "distinct (map task_id ys)"
      by (simp add: ys_def take_map drop_map)
    from b set_remove_nth [of k "mockTasks w"]
    have 2: "\<forall>u \<in> set ys. task_id u < nextId w"
      unfolding ys_def by blast
    from delete(2) have 3: "mockTasks (step e ev w) = ys"
      by (simp add: ys_def)
    from 1 2 3 delete(3) show ?thesis
      by (simp add: idsInv_def storeIds_def list_all_iff)
  qed
qed

lemma timesInv_step:
  assumes "timesInv c w" "c \<le> now e"
  shows "timesInv (now e) (step e ev w)"
proof -
  from assms have b: "\<forall>t \<in> set (mockTasks w). created_at t \<le> updated_at t \<and> updated_at t \<le> now e"
    by (auto simp: timesInv_def list_all_iff)
  show ?thesis
  proof (cases e ev w rule: step_store)
    case same
    with b show ?thesis by (simp add: timesInv_def list_all_iff)
  next
    case (create d')
    with b show ?thesis
      by (auto simp: timesInv_def list_all_iff localCreate_fields)
  next
    case (update i d' k t)
    have sub: "set ((mockTasks w)[k := t]) \<subseteq> insert t (set (mockTasks w))"
      by (rule set_update_subset_insert)
    from update(1) b have "created_at (mockTasks w ! k) \<le> now e"
      using nth_mem [of k "mockTasks w"] by fastforce
    with update(5,7) have "created_at t \<le> updated_at t \<and> updated_at t \<le> now e"
      by simp
    with sub b have "\<forall>u \<in> set ((mockTasks w)[k := t]).
        created_at u \<le> updated_at u \<and> updated_at u \<le> now e"
      by blast
    with update(3) show ?thesis
      by (simp add: timesInv_def list_all_iff)
  next
    case (delete k)
    from b set_remove_nth [of k "mockTasks w"]
    have "\<forall>u \<in> set (take k (mockTasks w) @ drop (Suc k) (mockTasks w)).
        created_at u \<le> updated_at u \<and> updated_at u \<le> now e"
      by blast
    with delete(2) show ?thesis
      by (simp add: timesInv_def list_all_iff)
  qed
qed

lemma descInv_step:
  assumes "idsInv w" "descInv g w"
  shows "descInv (case written e ev w of None \<Rightarrow> g | Some (i, d) \<Rightarrow> g(i \<mapsto> d)) (step e ev w)"
proof -
  from assms(1) have d: "distinct (map task_id (mockTasks w))"
    and b: "\<forall>t \<in> set (mockTasks w). task_id t < nextId w"
    by (simp_all add: idsInv_def storeIds_def list_all_iff)
  from assms(2) have g: "\<forall>t \<in> set (mockTasks w). g (task_id t) = Some (description t)"
    by (simp add: descInv_def list_all_iff)
  show ?thesis
  proof (cases e ev w rule: step_store)
    case same
    with g show ?thesis by (simp add: descInv_def list_all_iff)
  next
    case (create d')
    from b have "\<forall>t \<in> set (mockTasks w). task_id t \<noteq> nextId w" by auto
    with g create show ?thesis
      by (auto simp: descInv_def list_all_iff localCreate_fields)
  next
    case (update i d' k t)
    have "(g(i \<mapsto> d')) (task_id u) = Some (description u)"
      if u: "u \<in> set ((mockTasks w)[k := t])" for u
    proof -
      from u obtain j where j: "j < length (mockTasks w)" "u = (mockTasks w)[k := t] ! j"
        by (auto simp: in_set_conv_nth)
      show ?thesis
      proof (cases "j = k")
        case True
        with j update(1,4,6) show ?thesis by simp
      next
        case False
        with j have uj: "u = mockTasks w ! j" by simp
        have "task_id (mockTasks w ! j) \<noteq> task_id (mockTasks w ! k)"
          using nth_eq_iff_index_eq [OF d, of j k] j(1) update(1) False by simp
        with update(2) uj have "task_id u \<noteq> i" by simp
        moreover from g j(1) uj have "g (task_id u) = Some (description u)" by simp
        ultimately show ?thesis by simp
      qed
    qed
    with update(3,9) show ?thesis
      by (simp add: descInv_def list_all_iff)
  next
    case (delete k)
    from g set_remove_nth [of k "mockTasks w"]
    have "\<forall>u \<in> set (take k (mockTasks w) @ drop (Suc k) (mockTasks w)).
        g (task_id u) = Some (description u)"
      by blast
    with delete(2,4) show ?thesis
      by (simp add: descInv_def list_all_iff)
  qed
qed


lemma idsInv_run: "idsInv w \<Longrightarrow> idsInv (run evs w)"
proof (induction evs arbitrary: w)
  case Nil
  then show ?case by simp
next
  case (Cons a evs)
  obtain e ev where a: "a = (e, ev)" by (cases a)
  from Cons.prems have "idsInv (step e ev w)" by (rule idsInv_step)
  then have "idsInv (run evs (step e ev w))" by (rule Cons.IH)
  then show ?case by (simp add: a)
qed

lemma timesInv_run:
  "timesInv c w \<Longrightarrow> clockOk c evs \<Longrightarrow> \<exists>c'. timesInv c' (run evs w)"
proof (induction evs arbitrary: c w)
  case Nil
  then show ?case by auto
next
  case (Cons a evs)
  obtain e ev where a: "a = (e, ev)" by (cases a)
  from Cons.prems(2) a have c: "c \<le> now e" "clockOk (now e) evs" by simp_all
  from Cons.prems(1) c(1) have "timesInv (now e) (step e ev w)" by (rule timesInv_step)
  from Cons.IH [OF this c(2)] show ?case by (simp add: a)
qed

lemma descInv_run:
  "idsInv w \<Longrightarrow> descInv g w \<Longrightarrow> descInv (lastWritten evs w g) (run evs w)"
proof (induction evs arbitrary: w g)
  case Nil
  then show ?case by simp
next
  case (Cons a evs)
  obtain e ev where a: "a = (e, ev)" by (cases a)
  from Cons.prems(1) have i: "idsInv (step e ev w)" by (rule idsInv_step)
  from Cons.prems have "descInv (case written e ev w of None \<Rightarrow> g | Some (i, d) \<Rightarrow> g(i \<mapsto> d))
      (step e ev w)"
    by (rule descInv_step)
  from Cons.IH [OF i this] show ?case by (simp add: a)
qed

lemma initial_invariants:
  "idsInv (initial t0)" "timesInv t0 (initial t0)"
  "descInv [1 \<mapsto> description (sampleTask t0)] (initial t0)"
  by (simp_all add: idsInv_def timesInv_def descInv_def initial_def storeIds_def sampleTask_def)

lemma updateTask_keeps:
  "storeIds (step e (UpdateTask i d r) w) = storeIds w \<and>
   map created_at (mockTasks (step e (UpdateTask i d r) w)) = map created_at (mockTasks w)"
proof (cases "remoteJsonText r")
  case (Inr t)
  then show ?thesis by (simp add: updateTask_remote)
next
  case (Inl err)
  let ?w2 = "setDemoMode True (spec_reason e (Some err) None) (fetch (UpdateRequest i d) w)"
  from Inl have u: "updateTask e i d r w = localUpdate e i d ?w2"
    by (rule updateTask_failed)
  show ?thesis
  proof (cases "i \<in> set (storeIds w)")
    case False
    then have "localUpdate e i d ?w2 = (Inl taskNotFound, ?w2)"
      by (simp add: localUpdate_absent)
    with u show ?thesis by simp
  next
    case True
    then have "i \<in> set (storeIds ?w2)" by simp
    from localUpdate_present [OF this, of e d] obtain k t where
      kt: "k < length (mockTasks w)" "task_id (mockTasks w ! k) = i"
        "localUpdate e i d ?w2 = (Inr t, ?w2\<lparr>mockTasks := (mockTasks ?w2)[k := t]\<rparr>)"
        "task_id t = i" "created_at t = created_at (mockTasks w ! k)"
      by auto
    from kt(1,2,4) have "(map task_id (mockTasks w))[k := task_id t] = map task_id (mockTasks w)"
      by (intro list_update_same_conv [THEN iffD2]) simp_all
    moreover from kt(1,5)
    have "(map created_at (mockTasks w))[k := created_at t] = map created_at (mockTasks w)"
      by (intro list_update_same_conv [THEN iffD2]) simp_all
    ultimately show ?thesis
      using u kt(3) by (simp add: storeIds_def map_update)
  qed
qed

text \<open>
  C7, as the specification states it, fails in one point: the time stamps come from the
  wall clock, and when the clock is set back between the creation of a task and its
  update, the task is left with a time of modification before its time of creation.
\<close>

theorem C7_counterexample:
  "map (\<lambda>t. (task_id t, created_at t, updated_at t)) (mockTasks (run backwardsRun (initial 0))) =
     [(1, 0, 0), (2, 10, 5)]"
  by code_simp

text \<open>
  C7, amended. In every state that calls of \<open>api\<close> reach from the loaded module:
  if the clock readings of the successive calls do not decrease, every task of the
  store has \<open>created_at \<le> updated_at\<close>; the identifiers in the store are distinct and
  below \<open>nextId\<close>; every identifier that was in the store at an earlier point of the
  run is below \<open>nextId\<close>, which is the identifier that the next local creation
  assigns, so identifiers grow strictly from creation to creation and are never used
  again; an update keeps the identifier and the time of creation of every task; and the
  description of every task is, verbatim, the string of the last local create or update
  that wrote the task (for the sample task, the string it was loaded with).
\<close>

theorem C7_store_invariants:
  "(clockOk t0 evs \<longrightarrow>
      (\<forall>t \<in> set (mockTasks (run evs (initial t0))). created_at t \<le> updated_at t)) \<and>
   distinct (storeIds (run evs (initial t0))) \<and>
   (\<forall>i \<in> set (storeIds (run evs (initial t0))). i < nextId (run evs (initial t0))) \<and>
   (\<forall>evs1 evs2. evs = evs1 @ evs2 \<longrightarrow>
      (\<forall>i \<in> set (storeIds (run evs1 (initial t0))). i < nextId (run evs (initial t0)))) \<and>
   (isl (remoteJsonText r) \<longrightarrow>
      (\<exists>t. fst (createTask e d r w) = Inr t \<and> task_id t = nextId w \<and> description t = d \<and>
           created_at t = now e \<and> updated_at t = now e \<and>
           mockTasks (snd (createTask e d r w)) = mockTasks w @ [t] \<and>
           nextId (snd (createTask e d r w)) = nextId w + 1)) \<and>
   (storeIds (step e (UpdateTask i d r) w) = storeIds w \<and>
    map created_at (mockTasks (step e (UpdateTask i d r) w)) = map created_at (mockTasks w)) \<and>
   (\<forall>t \<in> set (mockTasks (run evs (initial t0))).
      lastWritten evs (initial t0) [1 \<mapsto> description (sampleTask t0)] (task_id t) =
        Some (description t))"
proof -
  let ?w = "run evs (initial t0)"
  have 1: "clockOk t0 evs \<longrightarrow> (\<forall>t \<in> set (mockTasks ?w). created_at t \<le> updated_at t)"
  proof
    assume "clockOk t0 evs"
    with initial_invariants(2) obtain c' where "timesInv c' ?w"
      using timesInv_run by blast
    then show "\<forall>t \<in> set (mockTasks ?w). created_at t \<le> updated_at t"
      by (simp add: timesInv_def list_all_iff)
  qed
  have ids: "idsInv ?w"
    using initial_invariants(1) by (rule idsInv_run)
  then have 2: "distinct (storeIds ?w)" and 3: "\<forall>i \<in> set (storeIds ?w). i < nextId ?w"
    by (simp_all add: idsInv_def list_all_iff)
  have 4: "\<forall>evs1 evs2. evs = evs1 @ evs2 \<longrightarrow>
      (\<forall>i \<in> set (storeIds (run evs1 (initial t0))). i < nextId ?w)"
  proof (intro allI impI ballI)
    fix evs1 evs2 i
    assume split: "evs = evs1 @ evs2" and i: "i \<in> set (storeIds (run evs1 (initial t0)))"
    have "idsInv (run evs1 (initial t0))"
      using initial_invariants(1) by (rule idsInv_run)
    with i have "i < nextId (run evs1 (initial t0))"
      by (simp add: idsInv_def list_all_iff)
    also have "\<dots> \<le> nextId (run evs2 (run evs1 (initial t0)))"
      by (rule nextId_run)
    finally show "i < nextId ?w"
      by (simp add: split run_append)
  qed
  have 5: "isl (remoteJsonText r) \<longrightarrow>
      (\<exists>t. fst (createTask e d r w) = Inr t \<and> task_id t = nextId w \<and> description t = d \<and>
           created_at t = now e \<and> updated_at t = now e \<and>
           mockTasks (snd (createTask e d r w)) = mockTasks w @ [t] \<and>
           nextId (snd (createTask e d r w)) = nextId w + 1)"
    by (auto simp: isl_def createTask_failed localCreate_fields)
  have 6: "storeIds (step e (UpdateTask i d r) w) = storeIds w \<and>
      map created_at (mockTasks (step e (UpdateTask i d r) w)) = map created_at (mockTasks w)"
    by (rule updateTask_keeps)
  have "descInv (lastWritten evs (initial t0) [1 \<mapsto> description (sampleTask t0)]) ?w"
    using initial_invariants(1,3) by (rule descInv_run)
  then have 7: "\<forall>t \<in> set (mockTasks ?w).
      lastWritten evs (initial t0) [1 \<mapsto> description (sampleTask t0)] (task_id t) =
        Some (description t)"
    by (simp add: descInv_def list_all_iff)
  show ?thesis
    by (intro conjI 1 2 3 4 5 6 [THEN conjunct1] 6 [THEN conjunct2] 7)
qed

theorem C7_witness:
  "clockOk 0 exampleRun \<and>
   list_all (\<lambda>t. created_at t \<le> updated_at t) (mockTasks (run exampleRun (initial 0))) \<and>
   map (\<lambda>t. (task_id t, description t, created_at t, updated_at t))
     (mockTasks (run exampleRun (initial 0))) = [(2, (js ''Call the client''), 10, 20)] \<and>
   nextId (run exampleRun (initial 0)) = 3"
proof -
  note fact = C7_store_invariants [of 0 exampleRun]
  have c: "clockOk 0 exampleRun"
    by (simp add: exampleRun_def envAt_def)
  have a: "list_all (\<lambda>t. created_at t \<le> updated_at t) (mockTasks (run exampleRun (initial 0)))"
    using fact [THEN conjunct1, rule_format, OF c] by (simp add: list_all_iff)
  have b: "map (\<lambda>t. (task_id t, description t, created_at t, updated_at t))
     (mockTasks (run exampleRun (initial 0))) = [(2, (js ''Call the client''), 10, 20)]"
    by code_simp
  have n: "nextId (run exampleRun (initial 0)) = 3"
    by code_simp
  show ?thesis
    by (intro conjI c a b n)
qed

end
